theory Spec2Isabelle
  imports Complex_Main
begin

section \<open>Sentinel: ensemble anomaly scoring and its circuit breaker\<close>

text \<open>
  A shallow embedding of \<^verbatim>\<open>prometheus/models/sentinel.py\<close>. Python floats are
  read as real numbers (no rounding, no NaN, no infinities); wall-clock instants
  (\<^verbatim>\<open>datetime.now()\<close>) are real numbers of seconds handed to each operation by its
  caller; an exception is a value \<open>Inl e\<close> of a sum type. Logging, the mutex and the
  registered listener callbacks (whose exceptions the code swallows) do not touch the
  fields modelled here and are left out.
\<close>

subsection \<open>Data model\<close>

datatype error = ValueError string | IndexError | TypeError | AttributeError

datatype threat_type =
  NONE | HASHRATE_ANOMALY | EARNINGS_ANOMALY | WORKER_BEHAVIOR | NETWORK_ATTACK
  | POOL_HOPPING | SHARE_MANIPULATION | DDOS_ATTEMPT | UNKNOWN

datatype severity = LOW | MEDIUM | HIGH | CRITICAL

fun threat_value :: "threat_type \<Rightarrow> string" where
  "threat_value NONE = ''none''"
| "threat_value HASHRATE_ANOMALY = ''hashrate_anomaly''"
| "threat_value EARNINGS_ANOMALY = ''earnings_anomaly''"
| "threat_value WORKER_BEHAVIOR = ''worker_behavior''"
| "threat_value NETWORK_ATTACK = ''network_attack''"
| "threat_value POOL_HOPPING = ''pool_hopping''"
| "threat_value SHARE_MANIPULATION = ''share_manipulation''"
| "threat_value DDOS_ATTEMPT = ''ddos_attempt''"
| "threat_value UNKNOWN = ''unknown''"

fun severity_value :: "severity \<Rightarrow> string" where
  "severity_value LOW = ''low''"
| "severity_value MEDIUM = ''medium''"
| "severity_value HIGH = ''high''"
| "severity_value CRITICAL = ''critical''"

text \<open>
  \<^verbatim>\<open>AnomalyDetectionResult\<close>. A contributing factor is kept as the pair of its label
  and its z-score; the source renders it as \<^verbatim>\<open>f"{label}: {z:.2f}\<sigma>"\<close>. The
  \<^verbatim>\<open>metadata\<close> dictionary is always empty in this module and is omitted.
\<close>

record anomaly_detection_result =
  is_anomaly :: bool
  threat_type :: threat_type
  severity :: severity
  confidence :: real
  anomaly_score :: real
  contributing_factors :: "(string \<times> real) list"
  timestamp :: real

subsection \<open>Circuit breaker\<close>

text \<open>The field \<^verbatim>\<open>_state\<close> only ever holds "closed", "open" or "half_open".\<close>

datatype breaker_state = Closed | Open | HalfOpen

fun state_name :: "breaker_state \<Rightarrow> string" where
  "state_name Closed = ''closed''"
| "state_name Open = ''open''"
| "state_name HalfOpen = ''half_open''"

record circuit_breaker =
  failure_threshold :: int
  recovery_timeout :: int
  half_open_max_calls :: int
  failures :: int
  successes_in_half_open :: int
  state :: breaker_state
  last_failure_time :: "real option"
  last_failure_reason :: "string option"

text \<open>\<^verbatim>\<open>CircuitBreakerState\<close>, the snapshot returned by \<^verbatim>\<open>get_state\<close>.\<close>

record circuit_breaker_state =
  snap_is_open :: bool
  snap_failures :: int
  snap_last_failure :: "real option"
  snap_recovery_time :: "real option"
  snap_reason :: "string option"

definition circuit_breaker_init :: "int \<Rightarrow> int \<Rightarrow> int \<Rightarrow> circuit_breaker" where
  "circuit_breaker_init ft rt hm =
     \<lparr> failure_threshold = ft, recovery_timeout = rt, half_open_max_calls = hm,
       failures = 0, successes_in_half_open = 0, state = Closed,
       last_failure_time = None, last_failure_reason = None \<rparr>"

definition transition_to_open :: "string \<Rightarrow> circuit_breaker \<Rightarrow> circuit_breaker" where
  "transition_to_open reason b = b\<lparr> state := Open, last_failure_reason := Some reason \<rparr>"

definition transition_to_half_open :: "circuit_breaker \<Rightarrow> circuit_breaker" where
  "transition_to_half_open b = b\<lparr> state := HalfOpen, successes_in_half_open := 0 \<rparr>"

definition transition_to_closed :: "circuit_breaker \<Rightarrow> circuit_breaker" where
  "transition_to_closed b =
     b\<lparr> state := Closed, failures := 0, successes_in_half_open := 0,
        last_failure_reason := None \<rparr>"

text \<open>\<^verbatim>\<open>_check_state_transition\<close>; \<open>now\<close> is the reading of \<^verbatim>\<open>datetime.now()\<close>.\<close>

definition check_state_transition :: "real \<Rightarrow> circuit_breaker \<Rightarrow> circuit_breaker" where
  "check_state_transition now b =
     (if state b = Open then
        (case last_failure_time b of
           None \<Rightarrow> b
         | Some t \<Rightarrow>
             (let elapsed = now - t
              in if elapsed \<ge> real_of_int (recovery_timeout b)
                 then transition_to_half_open b else b))
      else b)"

text \<open>The reading operations: each returns its value and the breaker it leaves behind.\<close>

definition is_open :: "real \<Rightarrow> circuit_breaker \<Rightarrow> bool \<times> circuit_breaker" where
  "is_open now b = (let b1 = check_state_transition now b in (state b1 = Open, b1))"

definition state_property :: "real \<Rightarrow> circuit_breaker \<Rightarrow> string \<times> circuit_breaker" where
  "state_property now b =
     (let b1 = check_state_transition now b in (state_name (state b1), b1))"

definition can_execute :: "real \<Rightarrow> circuit_breaker \<Rightarrow> bool \<times> circuit_breaker" where
  "can_execute now b = (let b1 = check_state_transition now b in (state b1 \<noteq> Open, b1))"

definition get_state ::
  "real \<Rightarrow> circuit_breaker \<Rightarrow> circuit_breaker_state \<times> circuit_breaker" where
  "get_state now b =
     (let b1 = check_state_transition now b;
          recovery_time =
            (if state b1 = Open then
               (case last_failure_time b1 of
                  None \<Rightarrow> None
                | Some t \<Rightarrow> Some (t + real_of_int (recovery_timeout b1)))
             else None)
      in (\<lparr> snap_is_open = (state b1 = Open), snap_failures = failures b1,
             snap_last_failure = last_failure_time b1,
             snap_recovery_time = recovery_time,
             snap_reason = last_failure_reason b1 \<rparr>, b1))"

text \<open>The writing operations.\<close>

definition record_failure :: "string \<Rightarrow> real \<Rightarrow> circuit_breaker \<Rightarrow> circuit_breaker" where
  "record_failure reason now b =
     (let b1 = b\<lparr> failures := failures b + 1, last_failure_time := Some now \<rparr>
      in if state b1 = HalfOpen then transition_to_open reason b1
         else if failures b1 \<ge> failure_threshold b1 then transition_to_open reason b1
         else b1)"

definition record_success :: "circuit_breaker \<Rightarrow> circuit_breaker" where
  "record_success b =
     (if state b = HalfOpen then
        (let b1 = b\<lparr> successes_in_half_open := successes_in_half_open b + 1 \<rparr>
         in if successes_in_half_open b1 \<ge> half_open_max_calls b1
            then transition_to_closed b1 else b1)
      else if state b = Closed then b\<lparr> failures := max 0 (failures b - 1) \<rparr>
      else b)"

definition reset :: "circuit_breaker \<Rightarrow> circuit_breaker" where
  "reset b = transition_to_closed b"

text \<open>
  \<^verbatim>\<open>process_detection\<close>. \<open>py_int\<close> is Python's \<^verbatim>\<open>int(x)\<close> on a float (truncation
  towards zero) and \<open>record_failure_loop n\<close> is \<^verbatim>\<open>for _ in range(n)\<close>, whose \<open>i\<close>-th
  round reads the clock as \<open>clock i\<close>. The rendering \<^verbatim>\<open>f"{score:.3f}"\<close> of the score
  in the reason is the parameter \<open>fmt\<close>.
\<close>

fun severity_weight :: "severity \<Rightarrow> real" where
  "severity_weight LOW = 0.5"
| "severity_weight MEDIUM = 1.0"
| "severity_weight HIGH = 2.0"
| "severity_weight CRITICAL = 3.0"

definition py_int :: "real \<Rightarrow> int" where
  "py_int x = (if x < 0 then \<lceil>x\<rceil> else \<lfloor>x\<rfloor>)"

fun record_failure_loop ::
  "nat \<Rightarrow> string \<Rightarrow> (nat \<Rightarrow> real) \<Rightarrow> nat \<Rightarrow> circuit_breaker \<Rightarrow> circuit_breaker" where
  "record_failure_loop 0 reason clock i b = b"
| "record_failure_loop (Suc n) reason clock i b =
     record_failure_loop n reason clock (Suc i) (record_failure reason (clock i) b)"

definition detection_reason :: "(real \<Rightarrow> string) \<Rightarrow> anomaly_detection_result \<Rightarrow> string" where
  "detection_reason fmt r =
     threat_value (threat_type r) @ '' - '' @ severity_value (severity r)
       @ '' (score: '' @ fmt (anomaly_score r) @ '')''"

definition process_detection ::
  "(real \<Rightarrow> string) \<Rightarrow> anomaly_detection_result \<Rightarrow> (nat \<Rightarrow> real)
     \<Rightarrow> circuit_breaker \<Rightarrow> circuit_breaker" where
  "process_detection fmt r clock b =
     (if is_anomaly r then
        (let weight = severity_weight (severity r)
         in record_failure_loop (nat (py_int weight)) (detection_reason fmt r) clock 0 b)
      else record_success b)"

subsection \<open>Ensemble scorer\<close>

text \<open>
  A fitted base detector (PyOD's IForest, LOF, KNN) is an external collaborator: its
  \<^verbatim>\<open>decision_function\<close> gives one raw anomaly score per row of the matrix it is handed,
  so a detector is taken as a parameter, the function from a row to its raw score.
  The configuration dictionary maps option names to integers.
\<close>

type_synonym detector = "real list \<Rightarrow> real"

record sentinel_ai =
  contamination :: real
  ensemble_weights :: "real list"
  config :: "string \<rightharpoonup> int"
  iforest :: "detector option"
  lof :: "detector option"
  knn :: "detector option"
  is_fitted :: bool
  feature_mean :: "real list option"
  feature_std :: "real list option"
  severity_thresholds :: "severity \<Rightarrow> real"
  detection_history :: "anomaly_detection_result list"
  max_history :: int

text \<open>The argument of \<^verbatim>\<open>detect\<close>: an array of one dimension or of two.\<close>

datatype features = Vec "real list" | Mat "real list list"

definition eps :: real where
  "eps = 1 / 10 ^ 8"

definition default_weights :: "real list" where
  "default_weights = [0.4, 0.3, 0.3]"

fun default_severity_thresholds :: "severity \<Rightarrow> real" where
  "default_severity_thresholds LOW = 0.3"
| "default_severity_thresholds MEDIUM = 0.5"
| "default_severity_thresholds HIGH = 0.7"
| "default_severity_thresholds CRITICAL = 0.9"

text \<open>
  \<^verbatim>\<open>SentinelAI.__init__\<close>. \<^verbatim>\<open>ensemble_weights or [0.4, 0.3, 0.3]\<close> takes the default
  for \<^verbatim>\<open>None\<close> and for the empty list alike.
\<close>

definition sentinel_ai_init ::
  "real \<Rightarrow> real list option \<Rightarrow> (string \<rightharpoonup> int) option \<Rightarrow> error + sentinel_ai" where
  "sentinel_ai_init contamination_arg weights_arg config_arg =
     (let weights = (case weights_arg of
                       None \<Rightarrow> default_weights
                     | Some ws \<Rightarrow> if ws = [] then default_weights else ws);
          cfg = (case config_arg of None \<Rightarrow> Map.empty | Some c \<Rightarrow> c)
      in if \<bar>sum_list weights - 1.0\<bar> > 0.001
         then Inl (ValueError ''Ensemble weights must sum to 1.0'')
         else Inr \<lparr> contamination = contamination_arg, ensemble_weights = weights,
                    config = cfg, iforest = None, lof = None, knn = None,
                    is_fitted = False, feature_mean = None, feature_std = None,
                    severity_thresholds = default_severity_thresholds,
                    detection_history = [],
                    max_history = (case cfg ''max_history'' of None \<Rightarrow> 1000 | Some n \<Rightarrow> n) \<rparr>)"

text \<open>
  NumPy broadcasting of a binary operation over two one-dimensional arrays: equal
  lengths go elementwise, a length-one operand is stretched, anything else raises.
\<close>

definition broadcast2 ::
  "(real \<Rightarrow> real \<Rightarrow> real) \<Rightarrow> real list \<Rightarrow> real list \<Rightarrow> error + real list" where
  "broadcast2 f xs ys =
     (if length xs = length ys then Inr (map2 f xs ys)
      else if length xs = 1 then Inr (map (f (hd xs)) ys)
      else if length ys = 1 then Inr (map (\<lambda>x. f x (hd ys)) xs)
      else Inl (ValueError ''operands could not be broadcast together''))"

fun traverse :: "('a \<Rightarrow> error + 'b) \<Rightarrow> 'a list \<Rightarrow> error + 'b list" where
  "traverse f [] = Inr []"
| "traverse f (x # xs) =
     (case f x of
        Inl e \<Rightarrow> Inl e
      | Inr y \<Rightarrow> (case traverse f xs of Inl e \<Rightarrow> Inl e | Inr ys \<Rightarrow> Inr (y # ys)))"

definition normalize_row :: "real list \<Rightarrow> real list \<Rightarrow> real list \<Rightarrow> error + real list" where
  "normalize_row mean std row =
     (case broadcast2 (\<lambda>x m. x - m) row mean of
        Inl e \<Rightarrow> Inl e
      | Inr centred \<Rightarrow> broadcast2 (\<lambda>x d. x / d) centred (map (\<lambda>d. d + eps) std))"

text \<open>\<^verbatim>\<open>_normalize\<close>, row by row.\<close>

definition normalize :: "sentinel_ai \<Rightarrow> real list list \<Rightarrow> error + real list list" where
  "normalize s data =
     (case feature_mean s of
        None \<Rightarrow> Inr data
      | Some mean \<Rightarrow>
          (case feature_std s of
             None \<Rightarrow> Inr data
           | Some std \<Rightarrow> traverse (normalize_row mean std) data))"

text \<open>
  The local function \<^verbatim>\<open>normalize_scores\<close> of \<^verbatim>\<open>_get_ensemble_score\<close>; NumPy's
  \<^verbatim>\<open>min\<close> of an empty array raises.
\<close>

definition normalize_scores :: "real list \<Rightarrow> error + real list" where
  "normalize_scores scores =
     (if scores = [] then Inl (ValueError ''zero-size array to reduction operation'')
      else
        (let min_s = Min (set scores); max_s = Max (set scores)
         in if max_s - min_s < eps then Inr (map (\<lambda>_. 0) scores)
            else Inr (map (\<lambda>x. (x - min_s) / (max_s - min_s)) scores)))"

text \<open>
  \<^verbatim>\<open>_get_ensemble_score\<close>. A detector that is still \<^verbatim>\<open>None\<close> raises on the attribute
  access; fewer than three weights raise on the subscript.
\<close>

definition weighted_sum :: "real list \<Rightarrow> real list \<Rightarrow> real list \<Rightarrow> real list \<Rightarrow> real list" where
  "weighted_sum w a b c =
     map (\<lambda>(x, y, z). w ! 0 * x + w ! 1 * y + w ! 2 * z) (zip a (zip b c))"

definition get_ensemble_score :: "sentinel_ai \<Rightarrow> real list list \<Rightarrow> error + real list" where
  "get_ensemble_score s data =
     (case normalize s data of
        Inl e \<Rightarrow> Inl e
      | Inr normalized \<Rightarrow>
     (case iforest s of None \<Rightarrow> Inl AttributeError | Some iforest_fn \<Rightarrow>
     (case lof s of None \<Rightarrow> Inl AttributeError | Some lof_fn \<Rightarrow>
     (case knn s of None \<Rightarrow> Inl AttributeError | Some knn_fn \<Rightarrow>
     (case normalize_scores (map iforest_fn normalized) of
        Inl e \<Rightarrow> Inl e
      | Inr iforest_norm \<Rightarrow>
     (case normalize_scores (map lof_fn normalized) of
        Inl e \<Rightarrow> Inl e
      | Inr lof_norm \<Rightarrow>
     (case normalize_scores (map knn_fn normalized) of
        Inl e \<Rightarrow> Inl e
      | Inr knn_norm \<Rightarrow>
          if length (ensemble_weights s) < 3 then Inl IndexError
          else Inr (weighted_sum (ensemble_weights s) iforest_norm lof_norm knn_norm))))))))"

text \<open>
  \<^verbatim>\<open>_classify_threat\<close>. \<open>z_score\<close> is the deviation of one feature slot; subscripting
  statistics that are \<^verbatim>\<open>None\<close> or too short raises. The tests
  \<^verbatim>\<open>"label" in str(contributing_factors)\<close> look for a factor with that label.
\<close>

definition z_score :: "sentinel_ai \<Rightarrow> real list \<Rightarrow> nat \<Rightarrow> error + real" where
  "z_score s fv idx =
     (case feature_mean s of
        None \<Rightarrow> Inl TypeError
      | Some mean \<Rightarrow>
          if length mean \<le> idx then Inl IndexError
          else
            (case feature_std s of
               None \<Rightarrow> Inl TypeError
             | Some std \<Rightarrow>
                 if length std \<le> idx then Inl IndexError
                 else Inr (\<bar>fv ! idx - mean ! idx\<bar> / (std ! idx + eps))))"

definition add_factor ::
  "sentinel_ai \<Rightarrow> real list \<Rightarrow> nat \<Rightarrow> real \<Rightarrow> string \<Rightarrow> (string \<times> real) list
     \<Rightarrow> error + (string \<times> real) list" where
  "add_factor s fv idx limit label factors =
     (if length fv > idx then
        (case z_score s fv idx of
           Inl e \<Rightarrow> Inl e
         | Inr z \<Rightarrow> Inr (if z > limit then factors @ [(label, z)] else factors))
      else Inr factors)"

definition has_factor :: "string \<Rightarrow> (string \<times> real) list \<Rightarrow> bool" where
  "has_factor label factors = (label \<in> set (map fst factors))"

definition classify_threat ::
  "sentinel_ai \<Rightarrow> real list \<Rightarrow> real \<Rightarrow> error + (threat_type \<times> (string \<times> real) list)" where
  "classify_threat s fv score =
     (case add_factor s fv 0 3 ''hashrate_deviation'' [] of
        Inl e \<Rightarrow> Inl e
      | Inr f1 \<Rightarrow>
     (case add_factor s fv 1 3 ''earnings_deviation'' f1 of
        Inl e \<Rightarrow> Inl e
      | Inr f2 \<Rightarrow>
     (case add_factor s fv 3 2 ''high_reject_rate'' f2 of
        Inl e \<Rightarrow> Inl e
      | Inr factors \<Rightarrow>
          Inr (if has_factor ''hashrate_deviation'' factors then
                 (if has_factor ''earnings_deviation'' factors
                  then (SHARE_MANIPULATION, factors)
                  else (HASHRATE_ANOMALY, factors))
               else if has_factor ''earnings_deviation'' factors
                 then (EARNINGS_ANOMALY, factors)
               else if has_factor ''high_reject_rate'' factors
                 then (NETWORK_ATTACK, factors)
               else if score > 0.8 then (UNKNOWN, factors)
               else (NONE, factors)))))"

definition determine_severity :: "sentinel_ai \<Rightarrow> real \<Rightarrow> severity" where
  "determine_severity s score =
     (if score \<ge> severity_thresholds s CRITICAL then CRITICAL
      else if score \<ge> severity_thresholds s HIGH then HIGH
      else if score \<ge> severity_thresholds s MEDIUM then MEDIUM
      else if score \<ge> severity_thresholds s LOW then LOW
      else LOW)"

text \<open>
  \<^verbatim>\<open>detect\<close>, in the two steps of its body. \<open>effective_threshold\<close> is the line
  \<^verbatim>\<open>threshold = threshold or (1 - self.contamination)\<close>: Python's \<^verbatim>\<open>or\<close> takes
  its right operand when the left one is \<^verbatim>\<open>None\<close> or \<^verbatim>\<open>0.0\<close>. \<open>detect_result\<close>
  builds the result (it raises before anything is stored); \<open>store_history\<close> appends
  it to the bounded history.
\<close>

definition effective_threshold :: "sentinel_ai \<Rightarrow> real option \<Rightarrow> real" where
  "effective_threshold s threshold =
     (case threshold of
        None \<Rightarrow> 1 - contamination s
      | Some t \<Rightarrow> if t = 0 then 1 - contamination s else t)"

definition detect_result ::
  "sentinel_ai \<Rightarrow> features \<Rightarrow> real option \<Rightarrow> real \<Rightarrow> error + anomaly_detection_result" where
  "detect_result s feats threshold now =
     (if \<not> is_fitted s
      then Inl (ValueError ''Model must be fitted before detection. Call fit() first.'')
      else
        (let features2d = (case feats of Vec v \<Rightarrow> [v] | Mat m \<Rightarrow> m)
         in case get_ensemble_score s features2d of
              Inl e \<Rightarrow> Inl e
            | Inr anomaly_scores \<Rightarrow>
           (case anomaly_scores of
              [] \<Rightarrow> Inl IndexError
            | score # _ \<Rightarrow>
           (case features2d of
              [] \<Rightarrow> Inl IndexError
            | feature_vector # _ \<Rightarrow>
           (let thr = effective_threshold s threshold;
                anomalous = (score > thr)
            in case classify_threat s feature_vector score of
                 Inl e \<Rightarrow> Inl e
               | Inr (threat, factors) \<Rightarrow>
                   (let sev = determine_severity s score;
                        margin = \<bar>score - thr\<bar>
                    in Inr \<lparr> is_anomaly = anomalous,
                              threat_type = (if anomalous then threat else NONE),
                              severity = (if anomalous then sev else LOW),
                              confidence = min 1.0 (0.5 + margin),
                              anomaly_score = score,
                              contributing_factors = factors,
                              timestamp = now \<rparr>))))))"

definition store_history :: "anomaly_detection_result \<Rightarrow> sentinel_ai \<Rightarrow> sentinel_ai" where
  "store_history r s =
     (let history = detection_history s @ [r]
      in s\<lparr> detection_history :=
              (if int (length history) > max_history s then tl history else history) \<rparr>)"

definition detect ::
  "sentinel_ai \<Rightarrow> features \<Rightarrow> real option \<Rightarrow> real
     \<Rightarrow> error + (anomaly_detection_result \<times> sentinel_ai)" where
  "detect s feats threshold now =
     (case detect_result s feats threshold now of
        Inl e \<Rightarrow> Inl e
      | Inr r \<Rightarrow> Inr (r, store_history r s))"

text \<open>
  \<^verbatim>\<open>detect_batch\<close>: the loop \<^verbatim>\<open>for i in range(len(features))\<close> hands row \<open>i\<close> to
  \<^verbatim>\<open>detect\<close>; the call for row \<open>i\<close> reads the clock as \<open>clock i\<close>. When a row
  raises, the exception is the outcome (the history entries of the rows before it stay
  in the Python object; the model returns the error alone).
\<close>

fun detect_rows ::
  "sentinel_ai \<Rightarrow> real list list \<Rightarrow> real option \<Rightarrow> (nat \<Rightarrow> real) \<Rightarrow> nat
     \<Rightarrow> error + (anomaly_detection_result list \<times> sentinel_ai)" where
  "detect_rows s [] threshold clock i = Inr ([], s)"
| "detect_rows s (row # rows) threshold clock i =
     (case detect s (Vec row) threshold (clock i) of
        Inl e \<Rightarrow> Inl e
      | Inr (r, s1) \<Rightarrow>
          (case detect_rows s1 rows threshold clock (Suc i) of
             Inl e \<Rightarrow> Inl e
           | Inr (rs, s2) \<Rightarrow> Inr (r # rs, s2)))"

definition detect_batch ::
  "sentinel_ai \<Rightarrow> real list list \<Rightarrow> real option \<Rightarrow> (nat \<Rightarrow> real)
     \<Rightarrow> error + (anomaly_detection_result list \<times> sentinel_ai)" where
  "detect_batch s batch threshold clock = detect_rows s batch threshold clock 0"

text \<open>
  \<^verbatim>\<open>fit\<close>: the column statistics (\<^verbatim>\<open>np.mean\<close>, \<^verbatim>\<open>np.std\<close> along axis 0), then the
  three detectors built and trained on the normalized data by the external library,
  which is the parameter \<open>train\<close>. For an empty training matrix NumPy's statistics
  are NaN; here they are the empty list, and \<open>train\<close> decides whether fitting fails.
\<close>

definition column_mean :: "real list list \<Rightarrow> real list" where
  "column_mean data = map (\<lambda>col. sum_list col / real (length col)) (transpose data)"

definition column_std :: "real list list \<Rightarrow> real list" where
  "column_std data =
     map (\<lambda>col. let mu = sum_list col / real (length col)
                in sqrt (sum_list (map (\<lambda>x. (x - mu)\<^sup>2) col) / real (length col)))
         (transpose data)"

definition fit ::
  "(real list list \<Rightarrow> error + detector \<times> detector \<times> detector) \<Rightarrow> real list list
     \<Rightarrow> sentinel_ai \<Rightarrow> error + sentinel_ai" where
  "fit train data s =
     (let s1 = s\<lparr> feature_mean := Some (column_mean data),
                  feature_std := Some (column_std data) \<rparr>
      in case normalize s1 data of
           Inl e \<Rightarrow> Inl e
         | Inr normalized_data \<Rightarrow>
             (case train normalized_data of
                Inl e \<Rightarrow> Inl e
              | Inr (d1, d2, d3) \<Rightarrow>
                  Inr (s1\<lparr> iforest := Some d1, lof := Some d2, knn := Some d3,
                          is_fitted := True \<rparr>)))"

text \<open>
  What \<^verbatim>\<open>fit\<close> leaves behind: the flag set, both statistics present and of one
  width, the three detectors present.
\<close>

definition fitted_width :: "sentinel_ai \<Rightarrow> nat" where
  "fitted_width s = (case feature_mean s of None \<Rightarrow> 0 | Some mean \<Rightarrow> length mean)"

definition fitted :: "sentinel_ai \<Rightarrow> bool" where
  "fitted s =
     (is_fitted s
      \<and> (case feature_mean s of
            None \<Rightarrow> False
          | Some mean \<Rightarrow>
              (case feature_std s of None \<Rightarrow> False | Some std \<Rightarrow> length mean = length std))
      \<and> (case iforest s of None \<Rightarrow> False | Some _ \<Rightarrow> True)
      \<and> (case lof s of None \<Rightarrow> False | Some _ \<Rightarrow> True)
      \<and> (case knn s of None \<Rightarrow> False | Some _ \<Rightarrow> True))"

subsection \<open>Concrete inputs used by the examples\<close>

definition example_clock :: "nat \<Rightarrow> real" where
  "example_clock i = real i"

definition example_fmt :: "real \<Rightarrow> string" where
  "example_fmt x = ''0.950''"

definition example_critical_result :: anomaly_detection_result where
  "example_critical_result =
     \<lparr> is_anomaly = True, threat_type = UNKNOWN, severity = CRITICAL, confidence = 0.55,
       anomaly_score = 0.95, contributing_factors = [], timestamp = 0 \<rparr>"

definition example_normal_result :: anomaly_detection_result where
  "example_normal_result =
     \<lparr> is_anomaly = False, threat_type = NONE, severity = LOW, confidence = 1,
       anomaly_score = 0, contributing_factors = [], timestamp = 0 \<rparr>"

definition example_half_open_breaker :: circuit_breaker where
  "example_half_open_breaker =
     transition_to_half_open (record_failure ''test'' 0 (circuit_breaker_init 1 0 2))"

definition example_open_breaker :: circuit_breaker where
  "example_open_breaker = record_failure ''test'' 0 (circuit_breaker_init 1 1 3)"

text \<open>
  The invariant the specification states for the ensemble weights: a non-empty
  sequence, no negative entry, a sum within 0.001 of 1.
\<close>

definition valid_ensemble_config :: "real list \<Rightarrow> bool" where
  "valid_ensemble_config w =
     (w \<noteq> [] \<and> list_all (\<lambda>x. 0 \<le> x) w \<and> \<bar>sum_list w - 1.0\<bar> \<le> 0.001)"

text \<open>
  Two detectors, a scorer as \<^verbatim>\<open>fit\<close> leaves it (see \<open>example_scorer_from_fit\<close>), and a
  second scorer whose weights sum to 1.0005. \<open>verdict\<close> and \<open>batch_scores\<close> read the
  decision and the scores off what \<open>detect\<close> and \<open>detect_batch\<close> return.
\<close>

definition example_detector :: detector where
  "example_detector row = sum_list row"

definition flat_detector :: detector where
  "flat_detector row = 0"

definition example_scorer :: sentinel_ai where
  "example_scorer =
     \<lparr> contamination = 0.1, ensemble_weights = [0.4, 0.3, 0.3], config = Map.empty,
       iforest = Some example_detector, lof = Some flat_detector, knn = Some flat_detector,
       is_fitted = True, feature_mean = Some [1], feature_std = Some [1],
       severity_thresholds = default_severity_thresholds, detection_history = [],
       max_history = 1000 \<rparr>"

definition example_train ::
  "real list list \<Rightarrow> error + detector \<times> detector \<times> detector" where
  "example_train data = Inr (example_detector, flat_detector, flat_detector)"

definition verdict ::
  "error + (anomaly_detection_result \<times> sentinel_ai) \<Rightarrow> error + (bool \<times> real)" where
  "verdict res =
     (case res of Inl e \<Rightarrow> Inl e | Inr (r, s) \<Rightarrow> Inr (is_anomaly r, anomaly_score r))"

definition batch_scores ::
  "error + (anomaly_detection_result list \<times> sentinel_ai) \<Rightarrow> error + real list" where
  "batch_scores res =
     (case res of Inl e \<Rightarrow> Inl e | Inr (rs, s) \<Rightarrow> Inr (map anomaly_score rs))"

definition example_tolerant_scorer :: sentinel_ai where
  "example_tolerant_scorer =
     example_scorer\<lparr> ensemble_weights := [0.4, 0.3, 0.3005],
       lof := Some example_detector, knn := Some example_detector \<rparr>"

section \<open>Circuit breaker: properties\<close>

subsection \<open>Counting failures\<close>

lemma record_failure_failures:
  "failures (record_failure reason now b) = failures b + 1"
  by (simp add: record_failure_def transition_to_open_def Let_def)

lemma record_failure_loop_failures:
  "failures (record_failure_loop n reason clock i b) = failures b + int n"
  by (induction n arbitrary: i b) (simp_all add: record_failure_failures)

lemma py_int_nonneg: "0 \<le> x \<Longrightarrow> py_int x = \<lfloor>x\<rfloor>"
  by (simp add: py_int_def)

lemma severity_weight_nonneg: "0 \<le> severity_weight v"
  by (cases v) simp_all

lemma record_failure_closed:
  assumes "state b = Closed"
  shows "failures (record_failure reason now b) = failures b + 1"
    and "last_failure_time (record_failure reason now b) = Some now"
    and "state (record_failure reason now b) =
           (if failure_threshold b \<le> failures b + 1 then Open else Closed)"
    and "last_failure_reason (record_failure reason now b) =
           (if failure_threshold b \<le> failures b + 1 then Some reason else last_failure_reason b)"
  using assms by (simp_all add: record_failure_def transition_to_open_def Let_def)

lemma record_success_closed:
  "state b = Closed \<Longrightarrow> record_success b = b\<lparr> failures := max 0 (failures b - 1) \<rparr>"
  by (simp add: record_success_def)

lemma three_failures_open:
  "state (record_failure r3 t3 (record_failure r2 t2 (record_failure r1 t1 (circuit_breaker_init 3 rt hm)))) = Open"
  "last_failure_time (record_failure r3 t3 (record_failure r2 t2 (record_failure r1 t1 (circuit_breaker_init 3 rt hm)))) = Some t3"
  "recovery_timeout (record_failure r3 t3 (record_failure r2 t2 (record_failure r1 t1 (circuit_breaker_init 3 rt hm)))) = rt"
  by (simp_all add: record_failure_def transition_to_open_def circuit_breaker_init_def Let_def)

lemma two_failures_closed:
  "state (record_failure r2 t2 (record_failure r1 t1 (circuit_breaker_init 3 rt hm))) = Closed"
  by (simp add: record_failure_def transition_to_open_def circuit_breaker_init_def Let_def)

text \<open>
  C4, as the code has it. While the breaker is Closed, \<open>record_failure\<close> adds exactly one
  to the failure counter and stores the time of the failure; the breaker opens exactly
  when the incremented counter has reached \<open>failure_threshold\<close>, and the reason is
  stored by that opening call only (below the threshold the stored reason is left as it
  was). \<open>record_success\<close> takes one off the counter, never below zero, and changes
  nothing else. With a threshold of 3, three failures recorded on a fresh breaker make
  \<open>is_open\<close> true when it is read before the recovery timeout has run out, and two
  failures leave it false.
\<close>

theorem closed_breaker_counting:
  "(state b = Closed \<longrightarrow>
      failures (record_failure reason now b) = failures b + 1
    \<and> last_failure_time (record_failure reason now b) = Some now
    \<and> (state (record_failure reason now b) = Open \<longleftrightarrow> failure_threshold b \<le> failures b + 1)
    \<and> (state (record_failure reason now b) = Closed \<longleftrightarrow> failures b + 1 < failure_threshold b)
    \<and> last_failure_reason (record_failure reason now b) =
        (if failure_threshold b \<le> failures b + 1 then Some reason else last_failure_reason b)
    \<and> record_success b = b\<lparr> failures := max 0 (failures b - 1) \<rparr>)
   \<and> (now - t3 < real_of_int rt \<longrightarrow>
        fst (is_open now (record_failure r3 t3 (record_failure r2 t2
              (record_failure r1 t1 (circuit_breaker_init 3 rt hm))))))
   \<and> \<not> fst (is_open now (record_failure r2 t2 (record_failure r1 t1 (circuit_breaker_init 3 rt hm))))"
proof -
  have closed: "state b = Closed \<Longrightarrow>
      failures (record_failure reason now b) = failures b + 1
    \<and> last_failure_time (record_failure reason now b) = Some now
    \<and> (state (record_failure reason now b) = Open \<longleftrightarrow> failure_threshold b \<le> failures b + 1)
    \<and> (state (record_failure reason now b) = Closed \<longleftrightarrow> failures b + 1 < failure_threshold b)
    \<and> last_failure_reason (record_failure reason now b) =
        (if failure_threshold b \<le> failures b + 1 then Some reason else last_failure_reason b)
    \<and> record_success b = b\<lparr> failures := max 0 (failures b - 1) \<rparr>"
    by (simp add: record_failure_closed record_success_closed)
  have three: "now - t3 < real_of_int rt \<Longrightarrow>
        fst (is_open now (record_failure r3 t3 (record_failure r2 t2
              (record_failure r1 t1 (circuit_breaker_init 3 rt hm)))))"
    by (simp add: is_open_def check_state_transition_def three_failures_open Let_def)
  have two: "\<not> fst (is_open now (record_failure r2 t2 (record_failure r1 t1 (circuit_breaker_init 3 rt hm))))"
    by (simp add: is_open_def check_state_transition_def two_failures_closed Let_def)
  show ?thesis using closed three two by blast
qed

theorem closed_breaker_counting_witness:
  "state (circuit_breaker_init 3 60 3) = Closed
   \<and> failures (record_failure ''test1'' 1 (circuit_breaker_init 3 60 3)) = 1
   \<and> last_failure_time (record_failure ''test1'' 1 (circuit_breaker_init 3 60 3)) = Some 1
   \<and> state (record_failure ''test1'' 1 (circuit_breaker_init 3 60 3)) = Closed
   \<and> (1::real) - 0 < real_of_int 60
   \<and> fst (is_open 1 (record_failure ''test3'' 0 (record_failure ''test2'' 0
              (record_failure ''test1'' 0 (circuit_breaker_init 3 60 3)))))"
proof -
  have h: "state (circuit_breaker_init 3 60 3) = Closed"
    by (simp add: circuit_breaker_init_def)
  have vals: "failures (circuit_breaker_init 3 60 3) = 0"
     "failure_threshold (circuit_breaker_init 3 60 3) = 3"
    by (simp_all add: circuit_breaker_init_def)
  show ?thesis
    using closed_breaker_counting [where b = "circuit_breaker_init 3 60 3"
        and reason = "''test1''" and now = 1 and ?t3.0 = 0 and rt = 60 and ?r3.0 = "''test3''"
        and ?r2.0 = "''test2''" and ?t2.0 = 0 and ?r1.0 = "''test1''" and ?t1.0 = 0 and hm = 3]
      h vals
    by simp
qed

text \<open>
  The first failure recorded on a fresh breaker with threshold 3 leaves the breaker
  Closed and stores no reason.
\<close>

theorem closed_failure_reason_counterexample:
  "state (circuit_breaker_init 3 60 3) = Closed
   \<and> last_failure_reason (record_failure ''test1'' 0 (circuit_breaker_init 3 60 3)) = None"
  by (simp add: record_failure_def transition_to_open_def circuit_breaker_init_def Let_def)

subsection \<open>Half-open\<close>

lemma record_failure_half_open:
  "state b = HalfOpen \<Longrightarrow> state (record_failure reason now b) = Open"
  by (simp add: record_failure_def transition_to_open_def Let_def)

lemma record_success_closed_zero:
  "state b = Closed \<Longrightarrow> failures b = 0 \<Longrightarrow> record_success b = b"
  by (simp add: record_success_def)

lemma record_success_pow_closed_zero:
  "state b = Closed \<Longrightarrow> failures b = 0 \<Longrightarrow> (record_success ^^ n) b = b"
  by (induction n) (simp_all add: record_success_closed_zero)

lemma record_success_pow_half_open:
  "state b = HalfOpen \<Longrightarrow> 0 < n \<Longrightarrow> half_open_max_calls b \<le> successes_in_half_open b + int n \<Longrightarrow>
   state ((record_success ^^ n) b) = Closed
   \<and> failures ((record_success ^^ n) b) = 0
   \<and> successes_in_half_open ((record_success ^^ n) b) = 0"
proof (induction n arbitrary: b)
  case 0
  then show ?case by simp
next
  case (Suc n)
  let ?b1 = "record_success b"
  have unfold: "(record_success ^^ Suc n) b = (record_success ^^ n) ?b1"
    by (simp add: funpow_swap1)
  show ?case
  proof (cases "half_open_max_calls b \<le> successes_in_half_open b + 1")
    case True
    with Suc.prems(1) have closed: "state ?b1 = Closed" "failures ?b1 = 0" "successes_in_half_open ?b1 = 0"
      by (simp_all add: record_success_def transition_to_closed_def Let_def)
    then have "(record_success ^^ n) ?b1 = ?b1"
      by (simp add: record_success_pow_closed_zero)
    with closed unfold show ?thesis by simp
  next
    case False
    with Suc.prems(1) have half: "state ?b1 = HalfOpen"
      "successes_in_half_open ?b1 = successes_in_half_open b + 1"
      "half_open_max_calls ?b1 = half_open_max_calls b"
      by (simp_all add: record_success_def Let_def)
    from False Suc.prems(3) have "0 < n" by (cases n) simp_all
    moreover from half Suc.prems(3)
    have "half_open_max_calls ?b1 \<le> successes_in_half_open ?b1 + int n" by simp
    ultimately show ?thesis
      using Suc.IH [OF half(1)] unfold by simp
  qed
qed

lemma record_failure_half_open_exact:
  "state b = HalfOpen \<Longrightarrow>
   record_failure reason now b
     = b\<lparr> failures := failures b + 1, last_failure_time := Some now, state := Open,
          last_failure_reason := Some reason \<rparr>"
  by (simp add: record_failure_def transition_to_open_def Let_def)

lemma record_success_counting_call:
  "state b = HalfOpen \<Longrightarrow> successes_in_half_open b + 1 < half_open_max_calls b \<Longrightarrow>
   record_success b = b\<lparr> successes_in_half_open := successes_in_half_open b + 1 \<rparr>"
  by (simp add: record_success_def Let_def)

lemma record_success_pow_stays_half_open:
  "state b = HalfOpen \<Longrightarrow> successes_in_half_open b + int n < half_open_max_calls b \<Longrightarrow>
   (record_success ^^ n) b = b\<lparr> successes_in_half_open := successes_in_half_open b + int n \<rparr>"
proof (induction n)
  case 0
  then show ?case by simp
next
  case (Suc n)
  let ?bn = "b\<lparr> successes_in_half_open := successes_in_half_open b + int n \<rparr>"
  from Suc have bn: "(record_success ^^ n) b = ?bn"
    by simp
  from Suc.prems have "record_success ?bn
      = ?bn\<lparr> successes_in_half_open := successes_in_half_open ?bn + 1 \<rparr>"
    by (intro record_success_counting_call) simp_all
  then have "record_success ?bn
      = b\<lparr> successes_in_half_open := successes_in_half_open b + int (Suc n) \<rparr>"
    by (simp add: add.assoc)
  with bn show ?case
    by (simp del: of_nat_Suc)
qed

lemma record_success_closing_call:
  "state b = HalfOpen \<Longrightarrow> half_open_max_calls b \<le> successes_in_half_open b + 1 \<Longrightarrow>
   record_success b = b\<lparr> successes_in_half_open := 0, state := Closed, failures := 0,
                          last_failure_reason := None \<rparr>"
  by (simp add: record_success_def transition_to_closed_def Let_def)

text \<open>
  C5. While the breaker is HalfOpen, one \<open>record_failure\<close> reopens it (it counts the
  failure and stores its time and reason). Each \<open>record_success\<close> adds one to the
  half-open counter and changes nothing else as long as the counter stays below
  \<open>half_open_max_calls\<close>, so fewer successes leave the breaker HalfOpen; the success
  that brings the counter to \<open>half_open_max_calls\<close> closes the breaker with the failure
  counter and the half-open counter both zero. So \<open>half_open_max_calls\<close> consecutive
  successes close it (the half-open counter starts at zero on entry and only grows, and
  the number of calls is at least one).
\<close>

theorem half_open_transitions:
  assumes "state b = HalfOpen"
  shows "state (record_failure reason now b) = Open
    \<and> (0 \<le> successes_in_half_open b \<and> 1 \<le> half_open_max_calls b \<longrightarrow>
         state ((record_success ^^ nat (half_open_max_calls b)) b) = Closed
         \<and> failures ((record_success ^^ nat (half_open_max_calls b)) b) = 0
         \<and> successes_in_half_open ((record_success ^^ nat (half_open_max_calls b)) b) = 0)
    \<and> record_failure reason now b
         = b\<lparr> failures := failures b + 1, last_failure_time := Some now, state := Open,
              last_failure_reason := Some reason \<rparr>
    \<and> (\<forall>n. successes_in_half_open b + int n < half_open_max_calls b \<longrightarrow>
          (record_success ^^ n) b
            = b\<lparr> successes_in_half_open := successes_in_half_open b + int n \<rparr>
          \<and> state ((record_success ^^ n) b) = HalfOpen
          \<and> failures ((record_success ^^ n) b) = failures b)
    \<and> (\<forall>n. successes_in_half_open b + int n + 1 = half_open_max_calls b \<longrightarrow>
          (record_success ^^ Suc n) b
            = b\<lparr> successes_in_half_open := 0, state := Closed, failures := 0,
                 last_failure_reason := None \<rparr>)"
proof -
  have reopen: "state (record_failure reason now b) = Open"
    using assms by (rule record_failure_half_open)
  have close: "state ((record_success ^^ nat (half_open_max_calls b)) b) = Closed
         \<and> failures ((record_success ^^ nat (half_open_max_calls b)) b) = 0
         \<and> successes_in_half_open ((record_success ^^ nat (half_open_max_calls b)) b) = 0"
    if h: "0 \<le> successes_in_half_open b \<and> 1 \<le> half_open_max_calls b"
  proof -
    from h have "0 < nat (half_open_max_calls b)"
      and "half_open_max_calls b \<le> successes_in_half_open b + int (nat (half_open_max_calls b))"
      by simp_all
    then show ?thesis
      by (rule record_success_pow_half_open [OF assms])
  qed
  have exact: "record_failure reason now b
         = b\<lparr> failures := failures b + 1, last_failure_time := Some now, state := Open,
              last_failure_reason := Some reason \<rparr>"
    using assms by (rule record_failure_half_open_exact)
  have stays: "(record_success ^^ n) b
            = b\<lparr> successes_in_half_open := successes_in_half_open b + int n \<rparr>
          \<and> state ((record_success ^^ n) b) = HalfOpen
          \<and> failures ((record_success ^^ n) b) = failures b"
    if "successes_in_half_open b + int n < half_open_max_calls b" for n
    using record_success_pow_stays_half_open [OF assms that] assms by simp
  have last: "(record_success ^^ Suc n) b
            = b\<lparr> successes_in_half_open := 0, state := Closed, failures := 0,
                 last_failure_reason := None \<rparr>"
    if "successes_in_half_open b + int n + 1 = half_open_max_calls b" for n
  proof -
    let ?b1 = "b\<lparr> successes_in_half_open := successes_in_half_open b + int n \<rparr>"
    from that have "(record_success ^^ n) b = ?b1"
      by (intro record_success_pow_stays_half_open [OF assms]) simp
    moreover from assms that have "record_success ?b1
        = ?b1\<lparr> successes_in_half_open := 0, state := Closed, failures := 0,
               last_failure_reason := None \<rparr>"
      by (intro record_success_closing_call) simp_all
    ultimately show ?thesis by simp
  qed
  show ?thesis
    using reopen close exact stays last by blast
qed

theorem half_open_transitions_witness:
  "state example_half_open_breaker = HalfOpen
   \<and> 0 \<le> successes_in_half_open example_half_open_breaker
   \<and> 1 \<le> half_open_max_calls example_half_open_breaker
   \<and> state (record_failure ''again'' 1 example_half_open_breaker) = Open
   \<and> state ((record_success ^^ 1) example_half_open_breaker) = HalfOpen
   \<and> successes_in_half_open ((record_success ^^ 1) example_half_open_breaker) = 1
   \<and> state ((record_success ^^ 2) example_half_open_breaker) = Closed
   \<and> failures ((record_success ^^ 2) example_half_open_breaker) = 0
   \<and> successes_in_half_open ((record_success ^^ 2) example_half_open_breaker) = 0"
proof -
  have h: "state example_half_open_breaker = HalfOpen"
    and vals: "successes_in_half_open example_half_open_breaker = 0"
      "half_open_max_calls example_half_open_breaker = 2"
    by (simp_all add: example_half_open_breaker_def transition_to_half_open_def
        record_failure_def transition_to_open_def circuit_breaker_init_def Let_def)
  note t = half_open_transitions [OF h, of "''again''" 1]
  from t have reopen: "state (record_failure ''again'' 1 example_half_open_breaker) = Open"
    by blast
  from t vals have two: "state ((record_success ^^ 2) example_half_open_breaker) = Closed
      \<and> failures ((record_success ^^ 2) example_half_open_breaker) = 0
      \<and> successes_in_half_open ((record_success ^^ 2) example_half_open_breaker) = 0"
    by simp
  from t have "successes_in_half_open example_half_open_breaker + int 1
        < half_open_max_calls example_half_open_breaker \<longrightarrow>
      (record_success ^^ 1) example_half_open_breaker
        = example_half_open_breaker\<lparr> successes_in_half_open :=
            successes_in_half_open example_half_open_breaker + int 1 \<rparr>"
    by blast
  with vals have one: "(record_success ^^ 1) example_half_open_breaker
        = example_half_open_breaker\<lparr> successes_in_half_open := 1 \<rparr>"
    by simp
  from h vals reopen two show ?thesis
    unfolding one by simp
qed

subsection \<open>The lazy recovery\<close>

lemma check_state_transition_due:
  "state b = Open \<Longrightarrow> last_failure_time b = Some t \<Longrightarrow> real_of_int (recovery_timeout b) \<le> now - t \<Longrightarrow>
   check_state_transition now b = transition_to_half_open b"
  by (simp add: check_state_transition_def)

lemma check_state_transition_not_due:
  "state b = Open \<Longrightarrow> last_failure_time b = Some t \<Longrightarrow> now - t < real_of_int (recovery_timeout b) \<Longrightarrow>
   check_state_transition now b = b"
  by (simp add: check_state_transition_def)

lemma record_failure_open:
  "state b = Open \<Longrightarrow> state (record_failure reason now b) = Open"
  by (simp add: record_failure_def transition_to_open_def Let_def)

lemma record_failure_loop_open:
  "state b = Open \<Longrightarrow> state (record_failure_loop n reason clock i b) = Open"
  by (induction n arbitrary: i b) (simp_all add: record_failure_open)

lemma record_success_open: "state b = Open \<Longrightarrow> record_success b = b"
  by (simp add: record_success_def)

lemma process_detection_open:
  "state b = Open \<Longrightarrow> state (process_detection fmt r clock b) = Open"
  by (simp add: process_detection_def record_failure_loop_open record_success_open Let_def)

text \<open>
  C6. The step from Open to HalfOpen is taken by a reading operation and by nothing
  else. On an Open breaker whose last failure lies at least \<open>recovery_timeout\<close> seconds
  back, each of \<open>is_open\<close>, \<open>state\<close>, \<open>can_execute\<close> and \<open>get_state\<close> performs the
  transition; read earlier, each leaves the breaker as it is. The writing operations
  keep an Open breaker Open whatever the clock says (\<open>reset\<close> closes it), so a breaker
  that is not read stays Open past its recovery time.
\<close>

theorem open_to_half_open_only_on_read:
  assumes "state b = Open"
  shows "(last_failure_time b = Some t \<and> real_of_int (recovery_timeout b) \<le> now - t \<longrightarrow>
            is_open now b = (False, transition_to_half_open b)
          \<and> state_property now b = (''half_open'', transition_to_half_open b)
          \<and> can_execute now b = (True, transition_to_half_open b)
          \<and> snd (get_state now b) = transition_to_half_open b
          \<and> state (transition_to_half_open b) = HalfOpen)
    \<and> (last_failure_time b = Some t \<and> now - t < real_of_int (recovery_timeout b) \<longrightarrow>
            is_open now b = (True, b) \<and> state_property now b = (''open'', b)
          \<and> can_execute now b = (False, b) \<and> snd (get_state now b) = b)
    \<and> state (record_failure reason now b) = Open
    \<and> record_success b = b
    \<and> state (process_detection fmt r clock b) = Open
    \<and> state (reset b) = Closed"
proof -
  have due: "last_failure_time b = Some t \<Longrightarrow> real_of_int (recovery_timeout b) \<le> now - t \<Longrightarrow>
      check_state_transition now b = transition_to_half_open b"
    using assms by (rule check_state_transition_due)
  have not_due: "last_failure_time b = Some t \<Longrightarrow> now - t < real_of_int (recovery_timeout b) \<Longrightarrow>
      check_state_transition now b = b"
    using assms by (rule check_state_transition_not_due)
  have half: "state (transition_to_half_open b) = HalfOpen"
    by (simp add: transition_to_half_open_def)
  show ?thesis
    using assms due not_due half
    by (auto simp: is_open_def state_property_def can_execute_def get_state_def Let_def
        record_failure_open record_success_open process_detection_open reset_def
        transition_to_closed_def)
qed

theorem open_to_half_open_only_on_read_witness:
  "state example_open_breaker = Open
   \<and> last_failure_time example_open_breaker = Some 0
   \<and> real_of_int (recovery_timeout example_open_breaker) \<le> 1.1 - 0
   \<and> state_property 1.1 example_open_breaker
       = (''half_open'', transition_to_half_open example_open_breaker)
   \<and> is_open 1.1 example_open_breaker = (False, transition_to_half_open example_open_breaker)
   \<and> 0.5 - 0 < real_of_int (recovery_timeout example_open_breaker)
   \<and> is_open 0.5 example_open_breaker = (True, example_open_breaker)
   \<and> state (record_failure ''later'' 100 example_open_breaker) = Open"
proof -
  have h: "state example_open_breaker = Open"
    and vals: "last_failure_time example_open_breaker = Some 0"
      "recovery_timeout example_open_breaker = 1"
    by (simp_all add: example_open_breaker_def record_failure_def transition_to_open_def
        circuit_breaker_init_def Let_def)
  show ?thesis
    using open_to_half_open_only_on_read [OF h, where t = 0 and now = "1.1"
        and reason = "''later''"]
      open_to_half_open_only_on_read [OF h, where t = 0 and now = "0.5"]
      open_to_half_open_only_on_read [OF h, where now = 100 and reason = "''later''"]
      h vals
    by simp
qed

subsection \<open>Detections driving the breaker\<close>

text \<open>
  C7. An anomalous result makes \<open>process_detection\<close> record exactly
  \<open>\<lfloor>weight\<rfloor>\<close> failures, with weight 0.5, 1, 2, 3 for LOW, MEDIUM, HIGH, CRITICAL: none
  for LOW (the breaker is returned as it was), one, two and three for the others, so a
  CRITICAL anomaly advances the failure counter by 3 in one call. A result that is not
  anomalous records exactly one success.
\<close>

theorem process_detection_failure_recordings:
  "(is_anomaly r \<longrightarrow>
      process_detection fmt r clock b =
        record_failure_loop (nat \<lfloor>severity_weight (severity r)\<rfloor>) (detection_reason fmt r) clock 0 b
      \<and> failures (process_detection fmt r clock b) = failures b + \<lfloor>severity_weight (severity r)\<rfloor>)
   \<and> (is_anomaly r \<and> severity r = LOW \<longrightarrow> process_detection fmt r clock b = b)
   \<and> (is_anomaly r \<and> severity r = MEDIUM \<longrightarrow>
        process_detection fmt r clock b = record_failure (detection_reason fmt r) (clock 0) b)
   \<and> (is_anomaly r \<and> severity r = HIGH \<longrightarrow>
        process_detection fmt r clock b =
          record_failure (detection_reason fmt r) (clock 1)
            (record_failure (detection_reason fmt r) (clock 0) b))
   \<and> (is_anomaly r \<and> severity r = CRITICAL \<longrightarrow>
        process_detection fmt r clock b =
          record_failure (detection_reason fmt r) (clock 2)
            (record_failure (detection_reason fmt r) (clock 1)
              (record_failure (detection_reason fmt r) (clock 0) b))
        \<and> failures (process_detection fmt r clock b) = failures b + 3)
   \<and> (\<not> is_anomaly r \<longrightarrow> process_detection fmt r clock b = record_success b)"
proof -
  have loop: "is_anomaly r \<Longrightarrow>
      process_detection fmt r clock b =
        record_failure_loop (nat \<lfloor>severity_weight (severity r)\<rfloor>) (detection_reason fmt r) clock 0 b"
    by (simp add: process_detection_def py_int_nonneg severity_weight_nonneg)
  have count: "is_anomaly r \<Longrightarrow>
      failures (process_detection fmt r clock b) = failures b + \<lfloor>severity_weight (severity r)\<rfloor>"
    using severity_weight_nonneg [of "severity r"]
    by (simp add: loop record_failure_loop_failures)
  have low: "is_anomaly r \<Longrightarrow> severity r = LOW \<Longrightarrow> process_detection fmt r clock b = b"
    by (simp add: loop)
  have medium: "is_anomaly r \<Longrightarrow> severity r = MEDIUM \<Longrightarrow>
      process_detection fmt r clock b = record_failure (detection_reason fmt r) (clock 0) b"
    by (simp add: loop)
  have high: "is_anomaly r \<Longrightarrow> severity r = HIGH \<Longrightarrow>
      process_detection fmt r clock b =
          record_failure (detection_reason fmt r) (clock 1)
            (record_failure (detection_reason fmt r) (clock 0) b)"
    by (simp add: loop numeral_2_eq_2)
  have critical: "is_anomaly r \<Longrightarrow> severity r = CRITICAL \<Longrightarrow>
      process_detection fmt r clock b =
          record_failure (detection_reason fmt r) (clock 2)
            (record_failure (detection_reason fmt r) (clock 1)
              (record_failure (detection_reason fmt r) (clock 0) b))"
    by (simp add: loop numeral_3_eq_3 numeral_2_eq_2)
  have critical3: "is_anomaly r \<Longrightarrow> severity r = CRITICAL \<Longrightarrow>
      failures (process_detection fmt r clock b) = failures b + 3"
    using count by simp
  have ok: "\<not> is_anomaly r \<Longrightarrow> process_detection fmt r clock b = record_success b"
    by (simp add: process_detection_def)
  show ?thesis
    using loop count low medium high critical critical3 ok by blast
qed

theorem process_detection_failure_recordings_witness:
  "is_anomaly example_critical_result
   \<and> severity example_critical_result = CRITICAL
   \<and> failures (process_detection example_fmt example_critical_result example_clock
          (circuit_breaker_init 5 60 3)) = 3
   \<and> \<not> is_anomaly example_normal_result
   \<and> process_detection example_fmt example_normal_result example_clock
         (circuit_breaker_init 5 60 3) = record_success (circuit_breaker_init 5 60 3)"
proof -
  have crit: "is_anomaly example_critical_result" "severity example_critical_result = CRITICAL"
    by (simp_all add: example_critical_result_def)
  have norm: "\<not> is_anomaly example_normal_result"
    by (simp add: example_normal_result_def)
  have zero: "failures (circuit_breaker_init 5 60 3) = 0"
    by (simp add: circuit_breaker_init_def)
  have three: "failures (process_detection example_fmt example_critical_result example_clock
          (circuit_breaker_init 5 60 3)) = failures (circuit_breaker_init 5 60 3) + 3"
    using process_detection_failure_recordings [where r = example_critical_result
        and fmt = example_fmt and clock = example_clock and b = "circuit_breaker_init 5 60 3"]
      crit
    by blast
  have one: "process_detection example_fmt example_normal_result example_clock
         (circuit_breaker_init 5 60 3) = record_success (circuit_breaker_init 5 60 3)"
    using process_detection_failure_recordings [where r = example_normal_result
        and fmt = example_fmt and clock = example_clock and b = "circuit_breaker_init 5 60 3"]
      norm
    by blast
  show ?thesis
    using crit norm three one zero by simp
qed

section \<open>Ensemble scorer: properties\<close>

subsection \<open>Rescaling and the weighted sum\<close>

lemma eps_pos: "0 < eps"
  by (simp add: eps_def)

lemma normalize_scores_single: "normalize_scores [x] = Inr [0]"
  by (simp add: normalize_scores_def eps_pos)

lemma normalize_scores_total:
  "raw \<noteq> [] \<Longrightarrow> \<exists>ns. normalize_scores raw = Inr ns"
  by (simp add: normalize_scores_def Let_def)

lemma normalize_scores_length:
  "normalize_scores raw = Inr ns \<Longrightarrow> length ns = length raw"
  by (auto simp: normalize_scores_def Let_def split: if_splits)

lemma normalize_scores_bounds:
  assumes "normalize_scores raw = Inr ns" and "x \<in> set ns"
  shows "0 \<le> x \<and> x \<le> 1"
proof (cases "Max (set raw) - Min (set raw) < eps")
  case True
  with assms show ?thesis
    by (auto simp: normalize_scores_def Let_def split: if_splits)
next
  case False
  from assms have ne: "raw \<noteq> []"
    by (auto simp: normalize_scores_def)
  from False eps_pos have range: "0 < Max (set raw) - Min (set raw)"
    by linarith
  from assms False ne obtain y where y: "y \<in> set raw"
    and x: "x = (y - Min (set raw)) / (Max (set raw) - Min (set raw))"
    by (auto simp: normalize_scores_def Let_def)
  from y have "Min (set raw) \<le> y" and "y \<le> Max (set raw)"
    by simp_all
  with range show ?thesis
    unfolding x by (simp add: divide_le_eq)
qed

lemma traverse_total:
  "(\<And>x. x \<in> set xs \<Longrightarrow> \<exists>y. f x = Inr y) \<Longrightarrow>
   \<exists>ys. traverse f xs = Inr ys \<and> length ys = length xs"
proof (induction xs)
  case Nil
  then show ?case by simp
next
  case (Cons x xs)
  from Cons.prems obtain y where "f x = Inr y" by fastforce
  moreover from Cons obtain ys where "traverse f xs = Inr ys" "length ys = length xs"
    by fastforce
  ultimately show ?case by simp
qed

lemma normalize_row_total:
  "length row = length mean \<Longrightarrow> length mean = length std \<Longrightarrow>
   \<exists>y. normalize_row mean std row = Inr y"
  by (simp add: normalize_row_def broadcast2_def)

lemma normalize_total:
  assumes "fitted s" and "\<And>row. row \<in> set data \<Longrightarrow> length row = fitted_width s"
  shows "\<exists>nd. normalize s data = Inr nd \<and> length nd = length data"
proof -
  from assms(1) obtain mean std where ms: "feature_mean s = Some mean" "feature_std s = Some std"
    "length mean = length std"
    by (auto simp: fitted_def split: option.splits)
  have "\<exists>y. normalize_row mean std row = Inr y" if "row \<in> set data" for row
    using assms(2) [OF that] ms by (simp add: normalize_row_total fitted_width_def)
  then have "\<exists>ys. traverse (normalize_row mean std) data = Inr ys \<and> length ys = length data"
    by (rule traverse_total)
  with ms show ?thesis by (simp add: normalize_def)
qed

lemma weighted_sum_length:
  "length a = n \<Longrightarrow> length b = n \<Longrightarrow> length c = n \<Longrightarrow> length (weighted_sum w a b c) = n"
  by (simp add: weighted_sum_def)

lemma weighted_sum_bounds:
  assumes a: "\<And>v. v \<in> set a \<Longrightarrow> 0 \<le> v \<and> v \<le> 1"
    and b: "\<And>v. v \<in> set b \<Longrightarrow> 0 \<le> v \<and> v \<le> 1"
    and c: "\<And>v. v \<in> set c \<Longrightarrow> 0 \<le> v \<and> v \<le> 1"
    and w: "0 \<le> w ! 0" "0 \<le> w ! 1" "0 \<le> w ! 2"
    and x: "x \<in> set (weighted_sum w a b c)"
  shows "0 \<le> x \<and> x \<le> w ! 0 + w ! 1 + w ! 2"
proof -
  from x obtain p q r where mem: "(p, q, r) \<in> set (zip a (zip b c))"
    and xeq: "x = w ! 0 * p + w ! 1 * q + w ! 2 * r"
    by (auto simp: weighted_sum_def)
  from mem have "p \<in> set a" "q \<in> set b" "r \<in> set c"
    by (auto dest: set_zip_leftD set_zip_rightD)
  with a b c have pqr: "0 \<le> p" "p \<le> 1" "0 \<le> q" "q \<le> 1" "0 \<le> r" "r \<le> 1"
    by blast+
  have "0 \<le> w ! 0 * p" "0 \<le> w ! 1 * q" "0 \<le> w ! 2 * r"
    using w pqr by simp_all
  moreover have "w ! 0 * p \<le> w ! 0" "w ! 1 * q \<le> w ! 1" "w ! 2 * r \<le> w ! 2"
    using w pqr by (simp_all add: mult_left_le)
  ultimately show ?thesis
    unfolding xeq by linarith
qed

lemma first_three_le_sum:
  assumes "list_all (\<lambda>x. 0 \<le> x) w" and "3 \<le> length w"
  shows "0 \<le> w ! 0 \<and> 0 \<le> w ! 1 \<and> 0 \<le> w ! 2 \<and> w ! 0 + w ! 1 + w ! 2 \<le> sum_list (w :: real list)"
proof -
  from assms(2) obtain x y z rest where w: "w = x # y # z # rest"
    by (cases w; cases "tl w"; cases "tl (tl w)") auto
  from assms(1) have "0 \<le> sum_list rest"
    unfolding w by (auto simp: list_all_iff intro: sum_list_nonneg)
  with assms(1) show ?thesis
    unfolding w by simp
qed

lemma traverse_length: "traverse f xs = Inr ys \<Longrightarrow> length ys = length xs"
  by (induction xs arbitrary: ys) (auto split: sum.splits)

lemma normalize_length: "normalize s data = Inr nd \<Longrightarrow> length nd = length data"
  by (auto simp: normalize_def traverse_length split: option.splits)

lemma single_row_scores:
  assumes "get_ensemble_score s [row] = Inr scores"
  shows "scores = [0]"
proof -
  from assms obtain nd where nd: "normalize s [row] = Inr nd"
    by (auto simp: get_ensemble_score_def split: sum.splits)
  then have "length nd = 1"
    by (auto dest: normalize_length)
  then obtain r where r: "nd = [r]"
    by (cases nd) auto
  from assms show ?thesis
    by (auto simp: get_ensemble_score_def nd r normalize_scores_single weighted_sum_def
        split: option.splits if_splits)
qed

lemma get_ensemble_score_total:
  assumes "fitted s" and "3 \<le> length (ensemble_weights s)" and "data \<noteq> []"
    and "\<And>row. row \<in> set data \<Longrightarrow> length row = fitted_width s"
  shows "\<exists>nd f1 f2 f3 a b c.
           normalize s data = Inr nd \<and> length nd = length data
         \<and> iforest s = Some f1 \<and> lof s = Some f2 \<and> knn s = Some f3
         \<and> normalize_scores (map f1 nd) = Inr a
         \<and> normalize_scores (map f2 nd) = Inr b
         \<and> normalize_scores (map f3 nd) = Inr c
         \<and> get_ensemble_score s data = Inr (weighted_sum (ensemble_weights s) a b c)"
proof -
  from normalize_total [OF assms(1) assms(4)] obtain nd
    where nd: "normalize s data = Inr nd" "length nd = length data"
    by blast
  with assms(3) have ne: "nd \<noteq> []" by auto
  from assms(1) obtain f1 f2 f3 where d: "iforest s = Some f1" "lof s = Some f2" "knn s = Some f3"
    by (auto simp: fitted_def split: option.splits)
  from ne obtain a b c where n: "normalize_scores (map f1 nd) = Inr a"
    "normalize_scores (map f2 nd) = Inr b" "normalize_scores (map f3 nd) = Inr c"
    using normalize_scores_total [of "map f1 nd"] normalize_scores_total [of "map f2 nd"]
      normalize_scores_total [of "map f3 nd"]
    by auto
  from assms(2) have "get_ensemble_score s data = Inr (weighted_sum (ensemble_weights s) a b c)"
    by (simp add: get_ensemble_score_def nd d n)
  with nd d n show ?thesis by blast
qed

subsection \<open>The parts of detect\<close>

lemma z_score_total:
  "fitted s \<Longrightarrow> idx < fitted_width s \<Longrightarrow> \<exists>z. z_score s fv idx = Inr z"
  by (auto simp: fitted_def fitted_width_def z_score_def split: option.splits)

lemma add_factor_total:
  "fitted s \<Longrightarrow> length fv = fitted_width s \<Longrightarrow> \<exists>fs. add_factor s fv idx limit label factors = Inr fs"
  using z_score_total [of s idx fv]
  by (auto simp: add_factor_def)

lemma classify_threat_total:
  assumes "fitted s" and "length fv = fitted_width s"
  shows "\<exists>threat factors. classify_threat s fv score = Inr (threat, factors)"
proof -
  obtain f1 where f1: "add_factor s fv 0 3 ''hashrate_deviation'' [] = Inr f1"
    using add_factor_total [OF assms] by blast
  obtain f2 where f2: "add_factor s fv 1 3 ''earnings_deviation'' f1 = Inr f2"
    using add_factor_total [OF assms] by blast
  obtain f3 where f3: "add_factor s fv 3 2 ''high_reject_rate'' f2 = Inr f3"
    using add_factor_total [OF assms] by blast
  show ?thesis
    by (simp add: classify_threat_def f1 f2 f3 del: One_nat_def)
qed

lemma detect_result_vec_score:
  assumes "detect_result s (Vec row) threshold now = Inr r"
  shows "anomaly_score r = 0"
proof -
  from assms obtain scores where sc: "get_ensemble_score s [row] = Inr scores"
    by (auto simp: detect_result_def Let_def split: if_splits sum.splits)
  then have "scores = [0]" by (rule single_row_scores)
  with assms sc show ?thesis
    by (auto simp: detect_result_def Let_def split: if_splits sum.splits prod.splits)
qed

lemma detect_result_anomaly:
  assumes "detect_result s feats threshold now = Inr r"
  shows "is_anomaly r \<longleftrightarrow> anomaly_score r > effective_threshold s threshold"
  using assms
  by (auto simp: detect_result_def Let_def split: if_splits sum.splits prod.splits list.splits)

lemma detect_honours_nonzero_threshold:
  assumes "detect_result s feats (Some t) now = Inr r" and "t \<noteq> 0"
  shows "is_anomaly r \<longleftrightarrow> anomaly_score r > t"
  using detect_result_anomaly [OF assms(1)] assms(2)
  by (simp add: effective_threshold_def)

lemma detect_result_vec_total:
  assumes "fitted s" and "3 \<le> length (ensemble_weights s)" and "length row = fitted_width s"
  shows "\<exists>r. detect_result s (Vec row) threshold now = Inr r"
proof -
  have "\<And>x. x \<in> set [row] \<Longrightarrow> length x = fitted_width s"
    using assms(3) by simp
  from get_ensemble_score_total [OF assms(1,2) _ this]
  obtain scores where "get_ensemble_score s [row] = Inr scores"
    by blast
  moreover from this have "scores = [0]" by (rule single_row_scores)
  moreover obtain threat factors where "classify_threat s row 0 = Inr (threat, factors)"
    using classify_threat_total [OF assms(1,3)] by blast
  moreover from assms(1) have "is_fitted s" by (simp add: fitted_def)
  ultimately show ?thesis
    by (simp add: detect_result_def Let_def)
qed

lemma normalize_history:
  "normalize (s\<lparr> detection_history := h \<rparr>) data = normalize s data"
  by (simp add: normalize_def split: option.splits)

lemma get_ensemble_score_history:
  "get_ensemble_score (s\<lparr> detection_history := h \<rparr>) data = get_ensemble_score s data"
  by (simp add: get_ensemble_score_def normalize_history split: option.splits sum.splits)

lemma z_score_history:
  "z_score (s\<lparr> detection_history := h \<rparr>) fv idx = z_score s fv idx"
  by (simp add: z_score_def split: option.splits)

lemma add_factor_history:
  "add_factor (s\<lparr> detection_history := h \<rparr>) fv idx limit label factors
     = add_factor s fv idx limit label factors"
  by (simp add: add_factor_def z_score_history)

lemma classify_threat_history:
  "classify_threat (s\<lparr> detection_history := h \<rparr>) fv score = classify_threat s fv score"
  by (simp add: classify_threat_def add_factor_history split: sum.splits)

lemma determine_severity_history:
  "determine_severity (s\<lparr> detection_history := h \<rparr>) score = determine_severity s score"
  by (simp add: determine_severity_def)

lemma effective_threshold_history:
  "effective_threshold (s\<lparr> detection_history := h \<rparr>) threshold = effective_threshold s threshold"
  by (simp add: effective_threshold_def split: option.splits)

lemma detect_result_history:
  "detect_result (s\<lparr> detection_history := h \<rparr>) feats threshold now
     = detect_result s feats threshold now"
  by (simp add: detect_result_def get_ensemble_score_history classify_threat_history
      determine_severity_history effective_threshold_history Let_def
      split: sum.splits list.splits prod.splits)

lemma detect_result_store_history:
  "detect_result (store_history r s) feats threshold now = detect_result s feats threshold now"
  by (simp add: store_history_def Let_def detect_result_history)

lemma store_history_keeps:
  "fitted (store_history r s) = fitted s"
  "ensemble_weights (store_history r s) = ensemble_weights s"
  "fitted_width (store_history r s) = fitted_width s"
  by (simp_all add: store_history_def Let_def fitted_def fitted_width_def split: option.splits)

subsection \<open>The example scorers\<close>

lemma example_scorer_from_fit:
  "sentinel_ai_init 0.1 None None = Inr s0 \<Longrightarrow>
   fit example_train [[0], [2]] s0 = Inr example_scorer"
  by (simp add: sentinel_ai_init_def default_weights_def Let_def)
     (auto simp: fit_def column_mean_def column_std_def normalize_def normalize_row_def
        broadcast2_def example_train_def example_scorer_def Let_def)

lemma example_normalize:
  "normalize example_scorer [[2], [0]]
     = Inr [[100000000 / 100000001], [- 100000000 / 100000001]]"
  by (simp add: normalize_def example_scorer_def normalize_row_def broadcast2_def eps_def)

lemma example_joint_scores:
  "get_ensemble_score example_scorer [[2], [0]] = Inr [0.4, 0]"
  by (simp add: get_ensemble_score_def example_normalize)
     (simp add: example_scorer_def normalize_scores_def example_detector_def flat_detector_def
        eps_def weighted_sum_def Let_def)

lemma example_scorer_facts:
  "fitted example_scorer" "length (ensemble_weights example_scorer) = 3"
  "fitted_width example_scorer = 1" "contamination example_scorer = 0.1"
  by (simp_all add: example_scorer_def fitted_def fitted_width_def)

lemma example_classify:
  "classify_threat example_scorer [2] score = Inr (if score > 0.8 then UNKNOWN else NONE, [])"
  by (simp add: classify_threat_def add_factor_def z_score_def example_scorer_def has_factor_def
      eps_def)

lemma example_detect_result:
  "detect_result example_scorer (Mat [[2], [0]]) threshold now =
     Inr \<lparr> is_anomaly = (0.4 > effective_threshold example_scorer threshold),
           threat_type = NONE, severity = LOW,
           confidence = min 1 (0.5 + \<bar>0.4 - effective_threshold example_scorer threshold\<bar>),
           anomaly_score = 0.4, contributing_factors = [], timestamp = now \<rparr>"
  by (simp add: detect_result_def example_joint_scores example_classify Let_def)
     (simp add: example_scorer_def determine_severity_def)

lemma example_tolerant_facts:
  "fitted example_tolerant_scorer"
  "ensemble_weights example_tolerant_scorer = [0.4, 0.3, 0.3005]"
  "fitted_width example_tolerant_scorer = 1"
  by (simp_all add: example_tolerant_scorer_def example_scorer_def fitted_def fitted_width_def)

lemma example_tolerant_normalize:
  "normalize example_tolerant_scorer [[2], [0]]
     = Inr [[100000000 / 100000001], [- 100000000 / 100000001]]"
  by (simp add: normalize_def example_tolerant_scorer_def example_scorer_def normalize_row_def
      broadcast2_def eps_def)

subsection \<open>The anomaly threshold\<close>

lemma detect_vec_score:
  "detect s (Vec row) threshold now = Inr (r, s') \<Longrightarrow> anomaly_score r = 0"
  by (auto simp: detect_def split: sum.splits dest: detect_result_vec_score)

text \<open>
  C1. For a fitted scorer (three weights, contamination at most 1) and a feature vector
  of the fitted width, \<open>detect\<close> returns a result, and the result is anomalous exactly
  when its score is strictly greater than the threshold: the supplied one, or
  1 - contamination when none is supplied, which is 0.9 for contamination 0.1. The same
  holds for whatever \<open>detect\<close> returns on any input, a matrix included, when the supplied
  threshold is not zero.
\<close>

theorem detect_anomalous_iff_above_threshold:
  assumes "fitted s" and "3 \<le> length (ensemble_weights s)"
    and "length row = fitted_width s" and "contamination s \<le> 1"
  shows "(\<exists>r. detect s (Vec row) threshold now = Inr (r, store_history r s)
            \<and> (is_anomaly r \<longleftrightarrow>
                 anomaly_score r > (case threshold of None \<Rightarrow> 1 - contamination s | Some t \<Rightarrow> t)))
    \<and> (\<forall>feats r s'. threshold \<noteq> Some 0 \<longrightarrow> detect s feats threshold now = Inr (r, s') \<longrightarrow>
          (is_anomaly r \<longleftrightarrow>
             anomaly_score r > (case threshold of None \<Rightarrow> 1 - contamination s | Some t \<Rightarrow> t)))
    \<and> (contamination s = 0.1 \<longrightarrow> effective_threshold s None = 0.9)"
proof -
  let ?stated = "case threshold of None \<Rightarrow> 1 - contamination s | Some t \<Rightarrow> t"
  obtain r where r: "detect_result s (Vec row) threshold now = Inr r"
    using detect_result_vec_total [OF assms(1-3)] by blast
  then have zero: "anomaly_score r = 0"
    by (rule detect_result_vec_score)
  from r have "is_anomaly r \<longleftrightarrow> anomaly_score r > effective_threshold s threshold"
    by (rule detect_result_anomaly)
  with zero assms(4) have "is_anomaly r \<longleftrightarrow> anomaly_score r > ?stated"
    by (auto simp: effective_threshold_def split: option.splits if_splits)
  with r have vec: "\<exists>r. detect s (Vec row) threshold now = Inr (r, store_history r s)
            \<and> (is_anomaly r \<longleftrightarrow> anomaly_score r > ?stated)"
    by (auto simp: detect_def)
  have any: "is_anomaly q \<longleftrightarrow> anomaly_score q > ?stated"
    if "threshold \<noteq> Some 0" and "detect s feats threshold now = Inr (q, s')" for feats q s'
  proof -
    from that(2) have "detect_result s feats threshold now = Inr q"
      by (auto simp: detect_def split: sum.splits)
    then have "is_anomaly q \<longleftrightarrow> anomaly_score q > effective_threshold s threshold"
      by (rule detect_result_anomaly)
    with that(1) show ?thesis
      by (auto simp: effective_threshold_def split: option.splits if_splits)
  qed
  have dflt: "contamination s = 0.1 \<Longrightarrow> effective_threshold s None = 0.9"
    by (simp add: effective_threshold_def)
  from vec any dflt show ?thesis
    by blast
qed

theorem detect_anomalous_iff_above_threshold_witness:
  "fitted example_scorer \<and> 3 \<le> length (ensemble_weights example_scorer)
   \<and> length ([2] :: real list) = fitted_width example_scorer
   \<and> contamination example_scorer \<le> 1
   \<and> verdict (detect example_scorer (Vec [2]) (Some (- 0.5)) 0) = Inr (True, 0)
   \<and> verdict (detect example_scorer (Vec [2]) (Some 0) 0) = Inr (False, 0)
   \<and> verdict (detect example_scorer (Vec [2]) None 0) = Inr (False, 0)
   \<and> verdict (detect example_scorer (Mat [[2], [0]]) (Some 0.3) 0) = Inr (True, 0.4)
   \<and> effective_threshold example_scorer None = 0.9"
proof -
  have h: "fitted example_scorer" "3 \<le> length (ensemble_weights example_scorer)"
    "length ([2] :: real list) = fitted_width example_scorer"
    "contamination example_scorer \<le> 1"
    by (simp_all add: example_scorer_facts)
  have vec: "verdict (detect example_scorer (Vec [2]) threshold 0)
      = Inr (0 > (case threshold of None \<Rightarrow> 1 - contamination example_scorer | Some t \<Rightarrow> t), 0)"
    for threshold
  proof -
    from detect_anomalous_iff_above_threshold [OF h, of threshold 0]
    obtain r where d: "detect example_scorer (Vec [2]) threshold 0
        = Inr (r, store_history r example_scorer)"
      and a: "is_anomaly r \<longleftrightarrow> anomaly_score r
          > (case threshold of None \<Rightarrow> 1 - contamination example_scorer | Some t \<Rightarrow> t)"
      by blast
    from d have "anomaly_score r = 0" by (rule detect_vec_score)
    with d a show ?thesis by (simp add: verdict_def)
  qed
  obtain q s' where q: "detect example_scorer (Mat [[2], [0]]) (Some 0.3) 0 = Inr (q, s')"
    and score: "anomaly_score q = 0.4"
    by (simp add: detect_def example_detect_result)
  from detect_anomalous_iff_above_threshold [OF h, of "Some 0.3" 0] q
  have "is_anomaly q \<longleftrightarrow> anomaly_score q > 0.3"
    by auto
  with q score have mat: "verdict (detect example_scorer (Mat [[2], [0]]) (Some 0.3) 0) = Inr (True, 0.4)"
    by (simp add: verdict_def)
  have dflt: "effective_threshold example_scorer None = 0.9"
    using detect_anomalous_iff_above_threshold [OF h, of None 0]
    by (simp add: example_scorer_facts)
  from h vec [of "Some (- 0.5)"] vec [of "Some 0"] vec [of None] mat dflt show ?thesis
    by (simp add: example_scorer_facts)
qed

text \<open>
  C10. A call of \<open>detect\<close> with the explicit threshold 0 is the same call as one with
  no threshold: both return the same result and leave the same scorer, and the
  threshold compared against is 1 - contamination.
\<close>

theorem zero_threshold_is_default:
  "detect s feats (Some 0) now = detect s feats None now
   \<and> effective_threshold s (Some 0) = 1 - contamination s
   \<and> (\<forall>r s'. detect s feats (Some 0) now = Inr (r, s') \<longrightarrow>
         (is_anomaly r \<longleftrightarrow> anomaly_score r > 1 - contamination s))"
proof -
  have thr: "effective_threshold s (Some 0) = effective_threshold s None"
    and dflt: "effective_threshold s (Some 0) = 1 - contamination s"
    by (simp_all add: effective_threshold_def)
  have res: "detect_result s feats (Some 0) now = detect_result s feats None now"
    unfolding detect_result_def thr by (rule refl)
  then have same: "detect s feats (Some 0) now = detect s feats None now"
    by (simp add: detect_def)
  have verdict: "is_anomaly r \<longleftrightarrow> anomaly_score r > 1 - contamination s"
    if "detect s feats (Some 0) now = Inr (r, s')" for r s'
  proof -
    from that have "detect_result s feats (Some 0) now = Inr r"
      by (auto simp: detect_def split: sum.splits)
    then show ?thesis
      using detect_result_anomaly [of s feats "Some 0" now r] dflt by simp
  qed
  show ?thesis
    using same dflt verdict by blast
qed

theorem zero_threshold_is_default_witness:
  "detect example_scorer (Mat [[2], [0]]) (Some 0) 5 = detect example_scorer (Mat [[2], [0]]) None 5
   \<and> verdict (detect example_scorer (Mat [[2], [0]]) (Some 0) 5) = Inr (False, 0.4)
   \<and> \<not> (0.4 > 1 - contamination example_scorer)"
proof -
  obtain r s' where d: "detect example_scorer (Mat [[2], [0]]) (Some 0) 5 = Inr (r, s')"
    and score: "anomaly_score r = 0.4"
    by (simp add: detect_def example_detect_result)
  from zero_threshold_is_default [of example_scorer "Mat [[2], [0]]" 5] d
  have same: "detect example_scorer (Mat [[2], [0]]) (Some 0) 5
      = detect example_scorer (Mat [[2], [0]]) None 5"
    and "is_anomaly r \<longleftrightarrow> anomaly_score r > 1 - contamination example_scorer"
    by blast+
  with score have "\<not> is_anomaly r" and c: "\<not> (0.4 > 1 - contamination example_scorer)"
    by (simp_all add: example_scorer_facts)
  with d score same show ?thesis
    by (simp add: verdict_def)
qed

text \<open>
  On a two-row matrix the first row can score above zero: here it scores 0.4, is
  reported anomalous at the threshold 0.3, and is not at the threshold 0, where 0.9 is
  compared.
\<close>

lemma zero_threshold_batch_example:
  "verdict (detect example_scorer (Mat [[2], [0]]) (Some 0) 0) = Inr (False, 0.4)
   \<and> verdict (detect example_scorer (Mat [[2], [0]]) (Some 0.3) 0) = Inr (True, 0.4)"
  by (simp add: verdict_def detect_def example_detect_result effective_threshold_def
      example_scorer_facts)

subsection \<open>Scoring a single vector\<close>

text \<open>
  C2. For a fitted scorer with its three weights and a feature vector of the fitted
  width, every detector's rescaled score of the one-row batch is 0, whatever the raw
  score, the ensemble score is 0, and \<open>detect\<close> on the vector returns a result whose
  score is 0.
\<close>

theorem single_vector_scores_zero:
  assumes "fitted s" and "3 \<le> length (ensemble_weights s)" and "length row = fitted_width s"
  shows "normalize_scores (map d [v]) = Inr [0]
    \<and> get_ensemble_score s [row] = Inr [0]
    \<and> (\<exists>r. detect s (Vec row) threshold now = Inr (r, store_history r s) \<and> anomaly_score r = 0)"
proof -
  have one: "normalize_scores (map d [v]) = Inr [0]"
    by (simp add: normalize_scores_single)
  have "\<And>x. x \<in> set [row] \<Longrightarrow> length x = fitted_width s"
    using assms(3) by simp
  from get_ensemble_score_total [OF assms(1,2) _ this]
  obtain scores where sc: "get_ensemble_score s [row] = Inr scores"
    by blast
  then have score: "get_ensemble_score s [row] = Inr [0]"
    using single_row_scores by blast
  obtain r where r: "detect_result s (Vec row) threshold now = Inr r"
    using detect_result_vec_total [OF assms] by blast
  then have "anomaly_score r = 0"
    by (rule detect_result_vec_score)
  with r have "detect s (Vec row) threshold now = Inr (r, store_history r s) \<and> anomaly_score r = 0"
    by (simp add: detect_def)
  with one score show ?thesis by blast
qed

theorem single_vector_scores_zero_witness:
  "fitted example_scorer \<and> 3 \<le> length (ensemble_weights example_scorer)
   \<and> length ([1000] :: real list) = fitted_width example_scorer
   \<and> normalize_scores (map example_detector [[1000]]) = Inr [0]
   \<and> get_ensemble_score example_scorer [[1000]] = Inr [0]"
  using single_vector_scores_zero [of example_scorer "[1000]" example_detector "[1000]" None 0]
  by (simp add: example_scorer_facts)

subsection \<open>Batches\<close>

lemma detect_rows_rowwise:
  assumes "fitted s" and "3 \<le> length (ensemble_weights s)"
    and "list_all (\<lambda>row. length row = fitted_width s) rows"
  shows "\<exists>rs s'. detect_rows s rows threshold clock i = Inr (rs, s')
           \<and> length rs = length rows
           \<and> (\<forall>k<length rows.
                 detect_result s (Vec (rows ! k)) threshold (clock (i + k)) = Inr (rs ! k))"
  using assms
proof (induction rows arbitrary: s i)
  case Nil
  then show ?case by simp
next
  case (Cons row rows)
  from Cons.prems have w: "length row = fitted_width s"
    and ws: "list_all (\<lambda>row. length row = fitted_width s) rows"
    by simp_all
  obtain r where r: "detect_result s (Vec row) threshold (clock i) = Inr r"
    using detect_result_vec_total [OF Cons.prems(1,2) w] by blast
  let ?s1 = "store_history r s"
  have "\<exists>rs s'. detect_rows ?s1 rows threshold clock (Suc i) = Inr (rs, s')
           \<and> length rs = length rows
           \<and> (\<forall>k<length rows.
                 detect_result ?s1 (Vec (rows ! k)) threshold (clock (Suc i + k)) = Inr (rs ! k))"
    using Cons.prems ws by (intro Cons.IH) (simp_all add: store_history_keeps)
  then obtain rs s' where rest: "detect_rows ?s1 rows threshold clock (Suc i) = Inr (rs, s')"
    "length rs = length rows"
    and each: "\<And>k. k < length rows \<Longrightarrow>
       detect_result s (Vec (rows ! k)) threshold (clock (Suc i + k)) = Inr (rs ! k)"
    by (auto simp: detect_result_store_history)
  have run: "detect_rows s (row # rows) threshold clock i = Inr (r # rs, s')"
    by (simp add: detect_def r rest)
  have "detect_result s (Vec ((row # rows) ! k)) threshold (clock (i + k)) = Inr ((r # rs) ! k)"
    if "k < length (row # rows)" for k
  proof (cases k)
    case 0
    with r show ?thesis by simp
  next
    case (Suc j)
    with that each [of j] show ?thesis by simp
  qed
  with run rest(2) show ?case by simp
qed

text \<open>
  C3, as the code has it. \<open>detect_batch\<close> hands each row to \<open>detect\<close> on its own, so
  each row is rescaled as a one-row batch: for a fitted scorer with its three weights
  and rows of the fitted width it returns one result per row, the result for row \<open>k\<close>
  is the one \<open>detect\<close> returns for that row alone, and every score is 0.
\<close>

theorem detect_batch_is_rowwise:
  assumes "fitted s" and "3 \<le> length (ensemble_weights s)"
    and "list_all (\<lambda>row. length row = fitted_width s) batch"
  shows "\<exists>rs s'. detect_batch s batch threshold clock = Inr (rs, s')
           \<and> length rs = length batch
           \<and> (\<forall>k<length batch.
                 detect s (Vec (batch ! k)) threshold (clock k)
                   = Inr (rs ! k, store_history (rs ! k) s))
           \<and> (\<forall>r\<in>set rs. anomaly_score r = 0)"
proof -
  from detect_rows_rowwise [OF assms, of threshold clock 0]
  obtain rs s' where run: "detect_rows s batch threshold clock 0 = Inr (rs, s')"
    and len: "length rs = length batch"
    and each: "\<And>k. k < length batch \<Longrightarrow>
       detect_result s (Vec (batch ! k)) threshold (clock k) = Inr (rs ! k)"
    by auto
  have one: "detect s (Vec (batch ! k)) threshold (clock k) = Inr (rs ! k, store_history (rs ! k) s)"
    if "k < length batch" for k
    using each [OF that] by (simp add: detect_def)
  have zero: "anomaly_score r = 0" if "r \<in> set rs" for r
  proof -
    from that len obtain k where "k < length batch" "r = rs ! k"
      by (auto simp: in_set_conv_nth)
    with each [of k] show ?thesis
      by (auto dest: detect_result_vec_score)
  qed
  from run len one zero show ?thesis
    by (auto simp: detect_batch_def)
qed

theorem detect_batch_is_rowwise_witness:
  "fitted example_scorer \<and> 3 \<le> length (ensemble_weights example_scorer)
   \<and> list_all (\<lambda>row. length row = fitted_width example_scorer)
         ([[2], [0]] :: real list list)
   \<and> batch_scores (detect_batch example_scorer [[2], [0]] None example_clock) = Inr [0, 0]"
proof -
  have h: "fitted example_scorer" "3 \<le> length (ensemble_weights example_scorer)"
    "list_all (\<lambda>row. length row = fitted_width example_scorer)
       ([[2], [0]] :: real list list)"
    by (simp_all add: example_scorer_facts)
  from detect_batch_is_rowwise [OF h, of None example_clock]
  obtain rs s' where run: "detect_batch example_scorer [[2], [0]] None example_clock = Inr (rs, s')"
    and len: "length rs = 2" and zero: "\<forall>r\<in>set rs. anomaly_score r = 0"
    by auto
  from len obtain a b where "rs = [a, b]"
    by (cases rs; cases "tl rs") auto
  with zero run have "batch_scores (detect_batch example_scorer [[2], [0]] None example_clock) = Inr [0, 0]"
    by (simp add: batch_scores_def)
  with h show ?thesis by simp
qed

text \<open>
  Rescaled jointly, the rows of this batch score 0.4 and 0; \<open>detect_batch\<close> reports 0
  and 0, the scores of \<open>detect\<close> called on each row alone.
\<close>

theorem detect_batch_not_joint_counterexample:
  "get_ensemble_score example_scorer [[2], [0]] = Inr [0.4, 0]
   \<and> batch_scores (detect_batch example_scorer [[2], [0]] None example_clock) = Inr [0, 0]
   \<and> verdict (detect example_scorer (Vec [2]) None (example_clock 0)) = Inr (False, 0)
   \<and> verdict (detect example_scorer (Vec [0]) None (example_clock 1)) = Inr (False, 0)"
proof -
  have h: "fitted example_scorer" "3 \<le> length (ensemble_weights example_scorer)"
    by (simp_all add: example_scorer_facts)
  have one: "verdict (detect example_scorer (Vec row) None now) = Inr (False, 0)"
    if "length row = 1" for row now
  proof -
    from that have "length row = fitted_width example_scorer"
      by (simp add: example_scorer_facts)
    from detect_result_vec_total [OF h this]
    obtain r where r: "detect_result example_scorer (Vec row) None now = Inr r"
      by blast
    then have "anomaly_score r = 0" by (rule detect_result_vec_score)
    moreover from r have "is_anomaly r \<longleftrightarrow> anomaly_score r > effective_threshold example_scorer None"
      by (rule detect_result_anomaly)
    ultimately show ?thesis
      using r by (simp add: verdict_def detect_def effective_threshold_def example_scorer_facts)
  qed
  have rows: "detect_batch example_scorer [[2], [0]] None example_clock =
      (case detect example_scorer (Vec [2]) None (example_clock 0) of
         Inl e \<Rightarrow> Inl e
       | Inr (r, s1) \<Rightarrow>
           (case detect s1 (Vec [0]) None (example_clock 1) of
              Inl e \<Rightarrow> Inl e
            | Inr (r', s2) \<Rightarrow> Inr ([r, r'], s2)))"
    by (simp add: detect_batch_def split: sum.splits prod.splits)
  obtain r1 where r1: "detect_result example_scorer (Vec [2]) None (example_clock 0) = Inr r1"
    using detect_result_vec_total [OF h, of "[2]"] by (auto simp: example_scorer_facts)
  obtain r2 where r2: "detect_result example_scorer (Vec [0]) None (example_clock 1) = Inr r2"
    using detect_result_vec_total [OF h, of "[0]"] by (auto simp: example_scorer_facts)
  have "batch_scores (detect_batch example_scorer [[2], [0]] None example_clock) = Inr [0, 0]"
    using detect_result_vec_score [OF r1] detect_result_vec_score [OF r2]
    by (simp add: rows detect_def r1 r2 detect_result_store_history batch_scores_def
        del: One_nat_def)
  with one [of "[2]"] one [of "[0]"] show ?thesis
    by (simp add: example_joint_scores)
qed

subsection \<open>Construction\<close>

lemma default_weights_sum: "sum_list default_weights = 1"
  by (simp add: default_weights_def)

text \<open>
  C8, as the code has it. The constructor raises exactly when the weights it was given
  are a non-empty list whose sum is further than 0.001 from 1, as [0.5, 0.5, 0.5] is;
  it looks at nothing else. Absent weights never raise (an empty list is replaced by
  the default weights like an absent one).
\<close>

theorem init_checks_weight_sum_only:
  "(sentinel_ai_init c (Some ws) cfg = Inl (ValueError ''Ensemble weights must sum to 1.0''))
      = (ws \<noteq> [] \<and> 0.001 < \<bar>sum_list ws - 1\<bar>)
   \<and> isl (sentinel_ai_init c (Some ws) cfg) = (ws \<noteq> [] \<and> 0.001 < \<bar>sum_list ws - 1\<bar>)
   \<and> \<not> isl (sentinel_ai_init c None cfg)
   \<and> sentinel_ai_init c (Some [0.5, 0.5, 0.5]) cfg
       = Inl (ValueError ''Ensemble weights must sum to 1.0'')"
  by (simp add: sentinel_ai_init_def default_weights_sum Let_def)

text \<open>
  Weights with a negative entry that sum to 1, and the empty list, are both accepted.
\<close>

theorem init_accepts_negative_weight_counterexample:
  "\<not> isl (sentinel_ai_init 0.1 (Some [1.5, - 0.5, 0]) None)
   \<and> \<not> isl (sentinel_ai_init 0.1 (Some []) None)"
  by (simp add: sentinel_ai_init_def default_weights_sum Let_def)

subsection \<open>The range of the scores\<close>

text \<open>
  C9, as the code has it. For a fitted scorer whose weights meet the specification's
  invariant and number at least three, and a non-empty batch of rows of the fitted
  width, scoring succeeds, each detector's rescaled scores lie in [0, 1], and each
  ensemble score lies in [0, 1.001]: the weights may sum to as much as 1.001.
\<close>

theorem ensemble_score_bounds:
  assumes "fitted s" and "valid_ensemble_config (ensemble_weights s)"
    and "3 \<le> length (ensemble_weights s)" and "batch \<noteq> []"
    and "list_all (\<lambda>row. length row = fitted_width s) batch"
  shows "\<exists>nd f1 f2 f3 a b c.
           normalize s batch = Inr nd
         \<and> iforest s = Some f1 \<and> lof s = Some f2 \<and> knn s = Some f3
         \<and> normalize_scores (map f1 nd) = Inr a
         \<and> normalize_scores (map f2 nd) = Inr b
         \<and> normalize_scores (map f3 nd) = Inr c
         \<and> (\<forall>x\<in>set a \<union> set b \<union> set c. 0 \<le> x \<and> x \<le> 1)
         \<and> get_ensemble_score s batch = Inr (weighted_sum (ensemble_weights s) a b c)
         \<and> length (weighted_sum (ensemble_weights s) a b c) = length batch
         \<and> (\<forall>x\<in>set (weighted_sum (ensemble_weights s) a b c). 0 \<le> x \<and> x \<le> 1.001)"
proof -
  let ?w = "ensemble_weights s"
  have width: "\<And>row. row \<in> set batch \<Longrightarrow> length row = fitted_width s"
    using assms(5) by (simp add: list_all_iff)
  from get_ensemble_score_total [OF assms(1,3,4) width]
  obtain nd f1 f2 f3 a b c where nd: "normalize s batch = Inr nd" "length nd = length batch"
    and d: "iforest s = Some f1" "lof s = Some f2" "knn s = Some f3"
    and n: "normalize_scores (map f1 nd) = Inr a" "normalize_scores (map f2 nd) = Inr b"
      "normalize_scores (map f3 nd) = Inr c"
    and score: "get_ensemble_score s batch = Inr (weighted_sum ?w a b c)"
    by blast
  have unit: "0 \<le> x \<and> x \<le> 1" if "x \<in> set a \<union> set b \<union> set c" for x
    using that n by (auto dest: normalize_scores_bounds)
  from n nd(2) have "length a = length batch" "length b = length batch" "length c = length batch"
    by (auto dest: normalize_scores_length)
  then have len: "length (weighted_sum ?w a b c) = length batch"
    by (rule weighted_sum_length)
  from assms(2) have nonneg: "list_all (\<lambda>x. 0 \<le> x) ?w"
    and near: "\<bar>sum_list ?w - 1.0\<bar> \<le> 0.001"
    unfolding valid_ensemble_config_def by blast+
  from near have "\<bar>sum_list ?w - 1\<bar> \<le> 1 / 1000"
    by simp
  then have "sum_list ?w \<le> 1001 / 1000"
    by linarith
  then have total: "sum_list ?w \<le> 1.001"
    by simp
  from first_three_le_sum [OF nonneg assms(3)] total
  have w: "0 \<le> ?w ! 0" "0 \<le> ?w ! 1" "0 \<le> ?w ! 2" "?w ! 0 + ?w ! 1 + ?w ! 2 \<le> 1.001"
    by simp_all
  have bound: "0 \<le> x \<and> x \<le> 1.001" if "x \<in> set (weighted_sum ?w a b c)" for x
  proof -
    have "0 \<le> x \<and> x \<le> ?w ! 0 + ?w ! 1 + ?w ! 2"
      using unit w(1-3) that by (intro weighted_sum_bounds [of a b c ?w x]) auto
    with w(4) show ?thesis by linarith
  qed
  from nd(1) d n unit score len bound show ?thesis
    by blast
qed

theorem ensemble_score_bounds_witness:
  "fitted example_tolerant_scorer
   \<and> valid_ensemble_config (ensemble_weights example_tolerant_scorer)
   \<and> 3 \<le> length (ensemble_weights example_tolerant_scorer)
   \<and> [[2], [0]] \<noteq> ([] :: real list list)
   \<and> list_all (\<lambda>row. length row = fitted_width example_tolerant_scorer)
         ([[2], [0]] :: real list list)
   \<and> (\<exists>scores. get_ensemble_score example_tolerant_scorer [[2], [0]] = Inr scores
         \<and> length scores = 2 \<and> list_all (\<lambda>x. 0 \<le> x \<and> x \<le> 1.001) scores)"
proof -
  have h: "fitted example_tolerant_scorer"
    "valid_ensemble_config (ensemble_weights example_tolerant_scorer)"
    "3 \<le> length (ensemble_weights example_tolerant_scorer)"
    "[[2], [0]] \<noteq> ([] :: real list list)"
    "list_all (\<lambda>row. length row = fitted_width example_tolerant_scorer)
       ([[2], [0]] :: real list list)"
    by (simp_all add: example_tolerant_facts valid_ensemble_config_def)
  from ensemble_score_bounds [OF h]
  have "\<exists>scores. get_ensemble_score example_tolerant_scorer [[2], [0]] = Inr scores
         \<and> length scores = 2 \<and> list_all (\<lambda>x. 0 \<le> x \<and> x \<le> 1.001) scores"
    by (auto simp: list_all_iff)
  with h show ?thesis by blast
qed

text \<open>
  Weights [0.4, 0.3, 0.3005] pass the constructor and meet the invariant; the first row
  of this batch is the maximum of every detector and scores 1.0005.
\<close>

theorem ensemble_score_above_one_counterexample:
  "\<not> isl (sentinel_ai_init 0.1 (Some [0.4, 0.3, 0.3005]) None)
   \<and> valid_ensemble_config (ensemble_weights example_tolerant_scorer)
   \<and> fitted example_tolerant_scorer
   \<and> get_ensemble_score example_tolerant_scorer [[2], [0]] = Inr [1.0005, 0]"
proof -
  have init: "\<not> isl (sentinel_ai_init 0.1 (Some [0.4, 0.3, 0.3005]) None)"
    by (simp add: sentinel_ai_init_def Let_def)
  have valid: "valid_ensemble_config (ensemble_weights example_tolerant_scorer)"
    by (simp add: valid_ensemble_config_def example_tolerant_facts)
  have score: "get_ensemble_score example_tolerant_scorer [[2], [0]] = Inr [1.0005, 0]"
    by (simp add: get_ensemble_score_def example_tolerant_normalize)
       (simp add: example_tolerant_scorer_def example_scorer_def normalize_scores_def
          example_detector_def eps_def weighted_sum_def Let_def)
  from init valid score show ?thesis
    by (simp add: example_tolerant_facts)
qed

end
